theory Spec2Isabelle
  imports Main "HOL-Library.Word"
begin

section \<open>Shared arrays (gecode/support/shared-array.hh)\<close>

subsection \<open>Memory\<close>

text \<open>
  Addresses are natural numbers. A pointer is \<open>NULL\<close> or an address. The heap keeps
  three tables indexed by address: the \<open>SAO\<close> objects, the element storage obtained
  from \<open>Memory::malloc\<close>, and the \<open>SharedArray\<close> handle objects. An entry is
  \<open>None\<close> once the object has been deleted, freed or destructed, so a pointer to it
  dangles. A new object always takes the next entry of its table.

  What C++ leaves undefined (dereferencing a null or dangling pointer, an index outside the
  allocated storage, signed overflow) and a failing \<open>assert\<close> are results of type
  \<open>fault\<close>.
\<close>

type_synonym addr = nat

datatype ptr = Null | Ptr addr

datatype fault =
    NullDereference
  | DanglingPointer
  | OutOfBounds
  | AssertionFailed
  | SignedOverflow
  | BadAlloc

text \<open>The three data members of \<open>SAO<T>\<close>: \<open>unsigned int use; T* a; int n\<close>.\<close>

record sao =
  sao_use :: "32 word"
  sao_a :: ptr
  sao_n :: int

text \<open>
  The trace records what the code does to memory: \<open>new\<close> and \<open>delete\<close> of an
  \<open>SAO\<close>, \<open>Memory::malloc\<close> (address, number of slots) and \<open>Memory::free\<close>,
  placement construction \<open>new (&a[i]) T(...)\<close> and the destructor call \<open>a[i].~T()\<close>
  (address of the storage, index).
\<close>

datatype event =
    New addr
  | Delete addr
  | Malloc addr nat
  | MFree addr
  | Construct addr nat
  | Destruct addr nat

text \<open>
  A slot of element storage holds \<open>None\<close> until a value has been stored in it
  (\<open>SAO(int)\<close> leaves the storage raw) and \<open>Some v\<close> afterwards.
\<close>

record 'a heap =
  objs :: "sao option list"
  blocks :: "'a option list option list"
  handles :: "ptr option list"
  trace :: "event list"

definition INT_MAX :: int where
  "INT_MAX = 2 ^ 31 - 1"

definition INT_MIN :: int where
  "INT_MIN = - (2 ^ 31)"

definition and_then :: "fault + 'b \<Rightarrow> ('b \<Rightarrow> fault + 'c) \<Rightarrow> fault + 'c" where
  "and_then m f = (case m of Inl e \<Rightarrow> Inl e | Inr x \<Rightarrow> f x)"

definition obj_at :: "'a heap \<Rightarrow> ptr \<Rightarrow> fault + sao" where
  "obj_at s p =
     (case p of
        Null \<Rightarrow> Inl NullDereference
      | Ptr q \<Rightarrow>
          if q < length (objs s)
          then (case objs s ! q of None \<Rightarrow> Inl DanglingPointer | Some ob \<Rightarrow> Inr ob)
          else Inl DanglingPointer)"

definition block_at :: "'a heap \<Rightarrow> ptr \<Rightarrow> fault + 'a option list" where
  "block_at s p =
     (case p of
        Null \<Rightarrow> Inl NullDereference
      | Ptr b \<Rightarrow>
          if b < length (blocks s)
          then (case blocks s ! b of None \<Rightarrow> Inl DanglingPointer | Some sl \<Rightarrow> Inr sl)
          else Inl DanglingPointer)"

definition handle_at :: "'a heap \<Rightarrow> nat \<Rightarrow> fault + ptr" where
  "handle_at s h =
     (if h < length (handles s)
      then (case handles s ! h of None \<Rightarrow> Inl DanglingPointer | Some p \<Rightarrow> Inr p)
      else Inl DanglingPointer)"

definition put_obj :: "addr \<Rightarrow> sao \<Rightarrow> 'a heap \<Rightarrow> 'a heap" where
  "put_obj p ob s = s\<lparr>objs := (objs s)[p := Some ob]\<rparr>"

definition put_handle :: "nat \<Rightarrow> ptr \<Rightarrow> 'a heap \<Rightarrow> 'a heap" where
  "put_handle h p s = s\<lparr>handles := (handles s)[h := Some p]\<rparr>"

definition emit :: "event \<Rightarrow> 'a heap \<Rightarrow> 'a heap" where
  "emit e s = s\<lparr>trace := trace s @ [e]\<rparr>"

text \<open>
  Modelled from the spec: \<open>Memory::malloc\<close> and \<open>Memory::free\<close> are declared in
  gecode/kernel.hh, which is not among the sources. \<open>malloc m\<close> reserves raw storage
  for \<open>m\<close> elements without constructing them, at an address not in use. The spec's
  OutOfMemory failure is not part of this model: a request for a non-negative number of
  slots succeeds. \<open>mfree\<close> releases storage; freeing \<open>NULL\<close> does nothing, freeing
  storage that is not allocated is undefined.
\<close>

definition malloc :: "nat \<Rightarrow> 'a heap \<Rightarrow> ptr \<times> 'a heap" where
  "malloc m s =
     (Ptr (length (blocks s)),
      emit (Malloc (length (blocks s)) m) (s\<lparr>blocks := blocks s @ [Some (replicate m None)]\<rparr>))"

definition mfree :: "ptr \<Rightarrow> 'a heap \<Rightarrow> fault + 'a heap" where
  "mfree p s =
     (case p of
        Null \<Rightarrow> Inr s
      | Ptr b \<Rightarrow>
          and_then (block_at s p)
            (\<lambda>_. Inr (emit (MFree b) (s\<lparr>blocks := (blocks s)[b := None]\<rparr>))))"

subsection \<open>The loops over the elements\<close>

text \<open>\<open>new (&dst[i]) T(src[i])\<close>: copy-construct slot \<open>i\<close> of \<open>dst\<close> from \<open>src\<close>.\<close>

definition construct_copy :: "ptr \<Rightarrow> ptr \<Rightarrow> nat \<Rightarrow> 'a heap \<Rightarrow> fault + 'a heap" where
  "construct_copy src dst i s =
     and_then (block_at s src) (\<lambda>xs.
       if i < length xs
       then and_then (block_at s dst) (\<lambda>ys.
         if i < length ys
         then (case dst of
                 Null \<Rightarrow> Inl NullDereference
               | Ptr d \<Rightarrow>
                   Inr (emit (Construct d i)
                          (s\<lparr>blocks := (blocks s)[d := Some (ys[i := xs ! i])]\<rparr>)))
         else Inl OutOfBounds)
       else Inl OutOfBounds)"

text \<open>
  \<open>for (int i=k; i--;) new (&dst[i]) T(src[i]);\<close> for \<open>k \<ge> 0\<close>: the indices run
  from \<open>k-1\<close> down to 0.
\<close>

primrec copy_down :: "ptr \<Rightarrow> ptr \<Rightarrow> nat \<Rightarrow> 'a heap \<Rightarrow> fault + 'a heap" where
  "copy_down src dst 0 s = Inr s"
| "copy_down src dst (Suc i) s =
     and_then (construct_copy src dst i s) (copy_down src dst i)"

text \<open>
  The same loop for an \<open>int\<close> count. With \<open>k < 0\<close> the test \<open>i--\<close> succeeds and the
  body runs at the index \<open>k-1 < 0\<close>, outside every storage.
\<close>

definition copy_elems :: "ptr \<Rightarrow> ptr \<Rightarrow> int \<Rightarrow> 'a heap \<Rightarrow> fault + 'a heap" where
  "copy_elems src dst k s =
     (if k < 0 then Inl OutOfBounds else copy_down src dst (nat k) s)"

text \<open>\<open>a[i].~T()\<close>\<close>

definition destruct :: "ptr \<Rightarrow> nat \<Rightarrow> 'a heap \<Rightarrow> fault + 'a heap" where
  "destruct p i s =
     and_then (block_at s p) (\<lambda>xs.
       if i < length xs
       then (case p of
               Null \<Rightarrow> Inl NullDereference
             | Ptr b \<Rightarrow>
                 Inr (emit (Destruct b i) (s\<lparr>blocks := (blocks s)[b := Some (xs[i := None])]\<rparr>)))
       else Inl OutOfBounds)"

text \<open>\<open>for (int i=n; i--;) a[i].~T();\<close> for \<open>n > 0\<close>\<close>

primrec destruct_down :: "ptr \<Rightarrow> nat \<Rightarrow> 'a heap \<Rightarrow> fault + 'a heap" where
  "destruct_down p 0 s = Inr s"
| "destruct_down p (Suc i) s = and_then (destruct p i s) (destruct_down p i)"

subsection \<open>\<open>SAO<T>\<close>\<close>

text \<open>
  \<open>new SAO<T>(n0)\<close>: \<open>use(1), n(n0)\<close>, and
  \<open>a = (n>0) ? Memory::malloc(sizeof(T)*n0) : NULL\<close>. Returns the address of the object.
\<close>

definition SAO_new :: "int \<Rightarrow> 'a heap \<Rightarrow> addr \<times> 'a heap" where
  "SAO_new n0 s =
     (let p = length (objs s);
          s1 = emit (New p) s;
          (na, s2) = (if 0 < n0 then malloc (nat n0) s1 else (Null, s1))
      in (p, s2\<lparr>objs := objs s2 @ [Some \<lparr>sao_use = 1, sao_a = na, sao_n = n0\<rparr>]\<rparr>))"

text \<open>\<open>SAO<T>::copy\<close>\<close>

definition SAO_copy :: "ptr \<Rightarrow> 'a heap \<Rightarrow> fault + (addr \<times> 'a heap)" where
  "SAO_copy p s =
     and_then (obj_at s p) (\<lambda>ob.
       let (q, s1) = SAO_new (sao_n ob) s in
       and_then (obj_at s1 (Ptr q)) (\<lambda>o'.
         and_then (copy_elems (sao_a ob) (sao_a o') (sao_n ob) s1) (\<lambda>s2. Inr (q, s2))))"

text \<open>\<open>delete this\<close>: the destructor \<open>SAO<T>::~SAO\<close>, then the object is gone.\<close>

definition SAO_delete :: "ptr \<Rightarrow> 'a heap \<Rightarrow> fault + 'a heap" where
  "SAO_delete p s =
     and_then (obj_at s p) (\<lambda>ob.
       and_then
         (if 0 < sao_n ob
          then and_then (destruct_down (sao_a ob) (nat (sao_n ob)) s) (mfree (sao_a ob))
          else Inr s)
         (\<lambda>s1. case p of
                  Null \<Rightarrow> Inl NullDereference
                | Ptr q \<Rightarrow> Inr (emit (Delete q) (s1\<lparr>objs := (objs s1)[q := None]\<rparr>))))"

text \<open>\<open>SAO<T>::subscribe\<close>: \<open>use++\<close> on an \<open>unsigned int\<close>.\<close>

definition SAO_subscribe :: "ptr \<Rightarrow> 'a heap \<Rightarrow> fault + 'a heap" where
  "SAO_subscribe p s =
     and_then (obj_at s p) (\<lambda>ob.
       case p of
         Null \<Rightarrow> Inl NullDereference
       | Ptr q \<Rightarrow> Inr (put_obj q (ob\<lparr>sao_use := sao_use ob + 1\<rparr>) s))"

text \<open>\<open>SAO<T>::release\<close>: \<open>if (--use == 0) delete this;\<close>\<close>

definition SAO_release :: "ptr \<Rightarrow> 'a heap \<Rightarrow> fault + 'a heap" where
  "SAO_release p s =
     and_then (obj_at s p) (\<lambda>ob.
       case p of
         Null \<Rightarrow> Inl NullDereference
       | Ptr q \<Rightarrow>
           (let s1 = put_obj q (ob\<lparr>sao_use := sao_use ob - 1\<rparr>) s
            in if sao_use ob - 1 = 0 then SAO_delete p s1 else Inr s1))"

text \<open>\<open>SAO<T>::shrink\<close>\<close>

definition SAO_shrink :: "ptr \<Rightarrow> int \<Rightarrow> 'a heap \<Rightarrow> fault + 'a heap" where
  "SAO_shrink p m s =
     and_then (obj_at s p) (\<lambda>ob.
       if \<not> m < sao_n ob then Inl AssertionFailed
       else
         and_then
           (if 0 < m
            then (let (na, s1) = malloc (nat m) s
                  in and_then (copy_down (sao_a ob) na (nat m) s1) (\<lambda>s2. Inr (na, s2)))
            else Inr (Null, s))
           (\<lambda>(na, s2).
              and_then (if 0 < sao_n ob then mfree (sao_a ob) s2 else Inr s2)
                (\<lambda>s3. case p of
                         Null \<Rightarrow> Inl NullDereference
                       | Ptr q \<Rightarrow> Inr (put_obj q (ob\<lparr>sao_n := m, sao_a := na\<rparr>) s3))))"

text \<open>
  \<open>SAO<T>::ensure\<close>. The product \<open>2*n\<close> is computed in \<open>int\<close>; a negative
  \<open>m\<close> converted to \<open>size_t\<close> is a request that no allocator serves.
\<close>

definition SAO_ensure :: "ptr \<Rightarrow> int \<Rightarrow> 'a heap \<Rightarrow> fault + 'a heap" where
  "SAO_ensure p i s =
     and_then (obj_at s p) (\<lambda>ob.
       if i \<ge> sao_n ob
       then
         if 2 * sao_n ob > INT_MAX \<or> 2 * sao_n ob < INT_MIN then Inl SignedOverflow
         else
           (let m = max (2 * sao_n ob) i
            in if m < 0 then Inl BadAlloc
               else
                 (let (na, s1) = malloc (nat m) s
                  in and_then (copy_elems (sao_a ob) na (sao_n ob) s1) (\<lambda>s2.
                       and_then (if 0 < sao_n ob then mfree (sao_a ob) s2 else Inr s2) (\<lambda>s3.
                         case p of
                           Null \<Rightarrow> Inl NullDereference
                         | Ptr q \<Rightarrow> Inr (put_obj q (ob\<lparr>sao_n := m, sao_a := na\<rparr>) s3)))))
       else Inr s)"

subsection \<open>\<open>SharedArray<T>\<close>\<close>

text \<open>
  A handle is identified by its index in \<open>handles\<close>; its entry is the data member
  \<open>SAO<T>* sao\<close>. The constructors return the new handle.
\<close>

text \<open>\<open>SharedArray(int n)\<close>: \<open>sao(new SAO<T>(n))\<close>\<close>

definition SharedArray_new :: "int \<Rightarrow> 'a heap \<Rightarrow> nat \<times> 'a heap" where
  "SharedArray_new k s =
     (let (p, s1) = SAO_new k s
      in (length (handles s1), s1\<lparr>handles := handles s1 @ [Some (Ptr p)]\<rparr>))"

text \<open>\<open>SharedArray(const SharedArray& a)\<close>\<close>

definition SharedArray_copy :: "nat \<Rightarrow> 'a heap \<Rightarrow> fault + (nat \<times> 'a heap)" where
  "SharedArray_copy a s =
     and_then (handle_at s a) (\<lambda>p.
       let h = length (handles s);
           s1 = s\<lparr>handles := handles s @ [Some p]\<rparr>
       in and_then (if p \<noteq> Null then SAO_subscribe p s1 else Inr s1) (\<lambda>s2. Inr (h, s2)))"


text \<open>\<open>operator=\<close>: \<open>h = a\<close>. The test \<open>this != &a\<close> compares the handle objects.\<close>

definition SharedArray_assign :: "nat \<Rightarrow> nat \<Rightarrow> 'a heap \<Rightarrow> fault + 'a heap" where
  "SharedArray_assign h a s =
     (if h \<noteq> a
      then
        and_then (handle_at s h) (\<lambda>p.
          and_then (if p \<noteq> Null then SAO_release p s else Inr s) (\<lambda>s1.
            and_then (handle_at s1 a) (\<lambda>pa.
              let s2 = put_handle h pa s1
              in if pa \<noteq> Null then SAO_subscribe pa s2 else Inr s2)))
      else Inr s)"

text \<open>
  \<open>update(Space* home, bool share, SharedArray& a)\<close>, called on the handle \<open>h\<close>. The
  body does not use \<open>home\<close>.
\<close>

definition SharedArray_update :: "nat \<Rightarrow> bool \<Rightarrow> nat \<Rightarrow> 'a heap \<Rightarrow> fault + 'a heap" where
  "SharedArray_update h share a s =
     and_then (handle_at s h) (\<lambda>p.
       and_then (if p \<noteq> Null then SAO_release p s else Inr s) (\<lambda>s1.
         and_then (handle_at s1 a) (\<lambda>pa.
           if share
           then (let s2 = put_handle h pa s1
                 in if pa \<noteq> Null then SAO_subscribe pa s2 else Inr s2)
           else if pa = Null then Inr (put_handle h Null s1)
           else and_then (SAO_copy pa s1) (\<lambda>(q, s2). Inr (put_handle h (Ptr q) s2)))))"

text \<open>\<open>operator[]\<close>, read: \<open>sao->a[i]\<close>, without a check against \<open>n\<close>.\<close>

definition SharedArray_index :: "nat \<Rightarrow> int \<Rightarrow> 'a heap \<Rightarrow> fault + 'a option" where
  "SharedArray_index h i s =
     and_then (handle_at s h) (\<lambda>p.
       and_then (obj_at s p) (\<lambda>ob.
         and_then (block_at s (sao_a ob)) (\<lambda>xs.
           if 0 \<le> i \<and> nat i < length xs then Inr (xs ! nat i) else Inl OutOfBounds)))"

text \<open>\<open>operator[]\<close>, used to store: \<open>h[i] = v\<close>.\<close>

definition SharedArray_store :: "nat \<Rightarrow> int \<Rightarrow> 'a \<Rightarrow> 'a heap \<Rightarrow> fault + 'a heap" where
  "SharedArray_store h i v s =
     and_then (handle_at s h) (\<lambda>p.
       and_then (obj_at s p) (\<lambda>ob.
         and_then (block_at s (sao_a ob)) (\<lambda>xs.
           if 0 \<le> i \<and> nat i < length xs
           then (case sao_a ob of
                   Null \<Rightarrow> Inl NullDereference
                 | Ptr b \<Rightarrow> Inr (s\<lparr>blocks := (blocks s)[b := Some (xs[nat i := Some v])]\<rparr>))
           else Inl OutOfBounds)))"

text \<open>\<open>size(void)\<close>: \<open>(sao == NULL) ? 0 : sao->n\<close>\<close>

definition SharedArray_size :: "nat \<Rightarrow> 'a heap \<Rightarrow> fault + int" where
  "SharedArray_size h s =
     and_then (handle_at s h) (\<lambda>p.
       if p = Null then Inr 0 else and_then (obj_at s p) (\<lambda>ob. Inr (sao_n ob)))"

text \<open>\<open>size(int n)\<close>\<close>

definition SharedArray_resize :: "nat \<Rightarrow> int \<Rightarrow> 'a heap \<Rightarrow> fault + 'a heap" where
  "SharedArray_resize h k s =
     and_then (handle_at s h) (\<lambda>p.
       if k = 0
       then and_then (if p \<noteq> Null then SAO_release p s else Inr s) (\<lambda>s1.
              Inr (put_handle h Null s1))
       else and_then (obj_at s p) (\<lambda>ob.
              case p of
                Null \<Rightarrow> Inl NullDereference
              | Ptr q \<Rightarrow> Inr (put_obj q (ob\<lparr>sao_n := k\<rparr>) s)))"

text \<open>\<open>shrink(int n)\<close> and \<open>ensure(int n)\<close> of the handle\<close>

definition SharedArray_shrink :: "nat \<Rightarrow> int \<Rightarrow> 'a heap \<Rightarrow> fault + 'a heap" where
  "SharedArray_shrink h k s =
     and_then (handle_at s h) (\<lambda>p. if p \<noteq> Null then SAO_shrink p k s else Inr s)"

definition SharedArray_ensure :: "nat \<Rightarrow> int \<Rightarrow> 'a heap \<Rightarrow> fault + 'a heap" where
  "SharedArray_ensure h k s =
     and_then (handle_at s h) (\<lambda>p. if p \<noteq> Null then SAO_ensure p k s else Inr s)"

text \<open>The elements a handle reports: what \<open>operator[]\<close> reads at \<open>0, ..., size()-1\<close>.\<close>

definition elements :: "nat \<Rightarrow> 'a heap \<Rightarrow> fault + 'a option list" where
  "elements h s =
     and_then (handle_at s h) (\<lambda>p.
       if p = Null then Inr []
       else and_then (obj_at s p) (\<lambda>ob.
              if sao_n ob \<le> 0 then Inr []
              else and_then (block_at s (sao_a ob)) (\<lambda>xs.
                     if nat (sao_n ob) \<le> length xs then Inr (take (nat (sao_n ob)) xs)
                     else Inl OutOfBounds)))"

definition empty_heap :: "'a heap" where
  "empty_heap = \<lparr>objs = [], blocks = [], handles = [], trace = []\<rparr>"

text \<open>A heap with one handle on a buffer of two elements.\<close>

definition two_elements :: "nat heap" where
  "two_elements =
     \<lparr>objs = [Some \<lparr>sao_use = 1, sao_a = Ptr 0, sao_n = 2\<rparr>],
      blocks = [Some [Some 7, Some 8]],
      handles = [Some (Ptr 0)],
      trace = []\<rparr>"

text \<open>A heap with one handle on a buffer of \<open>2^30\<close> elements.\<close>

definition huge :: "nat heap" where
  "huge =
     \<lparr>objs = [Some \<lparr>sao_use = 1, sao_a = Ptr 0, sao_n = 2 ^ 30\<rparr>],
      blocks = [Some (replicate (2 ^ 30) None)],
      handles = [Some (Ptr 0)],
      trace = []\<rparr>"

text \<open>
  The heap after \<open>SharedArray<T> x(0)\<close>, and the heap after \<open>x.ensure(0)\<close> on it: the
  buffer has length 0 and holds the block of no slots that \<open>Memory::malloc\<close> returned.
\<close>

definition zero_length :: "nat heap" where
  "zero_length =
     \<lparr>objs = [Some \<lparr>sao_use = 1, sao_a = Null, sao_n = 0\<rparr>],
      blocks = [],
      handles = [Some (Ptr 0)],
      trace = [New 0]\<rparr>"

definition after_ensure_zero :: "nat heap" where
  "after_ensure_zero =
     \<lparr>objs = [Some \<lparr>sao_use = 1, sao_a = Ptr 0, sao_n = 0\<rparr>],
      blocks = [Some []],
      handles = [Some (Ptr 0)],
      trace = [New 0, Malloc 0 0]\<rparr>"

text \<open>The heap after the handle of \<open>two_elements\<close> has been copied.\<close>

definition shared_pair :: "nat heap" where
  "shared_pair =
     \<lparr>objs = [Some \<lparr>sao_use = 2, sao_a = Ptr 0, sao_n = 2\<rparr>],
      blocks = [Some [Some 7, Some 8]],
      handles = [Some (Ptr 0), Some (Ptr 0)],
      trace = []\<rparr>"

text \<open>A heap with two handles, each on a buffer of its own.\<close>

definition two_buffers :: "nat heap" where
  "two_buffers =
     \<lparr>objs = [Some \<lparr>sao_use = 1, sao_a = Ptr 0, sao_n = 2\<rparr>,
             Some \<lparr>sao_use = 1, sao_a = Ptr 1, sao_n = 1\<rparr>],
      blocks = [Some [Some 7, Some 8], Some [Some 9]],
      handles = [Some (Ptr 0), Some (Ptr 1)],
      trace = []\<rparr>"

text \<open>
  A heap with a handle on a buffer of two elements and an empty handle, and the same heap
  after the empty handle has been copied.
\<close>

definition with_empty :: "nat heap" where
  "with_empty =
     \<lparr>objs = [Some \<lparr>sao_use = 1, sao_a = Ptr 0, sao_n = 2\<rparr>],
      blocks = [Some [Some 7, Some 8]],
      handles = [Some (Ptr 0), Some Null],
      trace = []\<rparr>"

definition copied_empty :: "nat heap" where
  "copied_empty =
     \<lparr>objs = [Some \<lparr>sao_use = 1, sao_a = Ptr 0, sao_n = 2\<rparr>],
      blocks = [Some [Some 7, Some 8]],
      handles = [Some (Ptr 0), Some Null, Some Null],
      trace = []\<rparr>"



subsection \<open>Well-formed heaps\<close>

text \<open>
  The storage of a buffer is in order when, for \<open>n > 0\<close>, the pointer \<open>a\<close> refers to
  allocated storage of at least \<open>n\<close> slots.
\<close>

definition storage_ok :: "'a heap \<Rightarrow> sao \<Rightarrow> bool" where
  "storage_ok s ob =
     (if 0 < sao_n ob
      then (case block_at s (sao_a ob) of Inl _ \<Rightarrow> False | Inr xs \<Rightarrow> nat (sao_n ob) \<le> length xs)
      else True)"

definition handle_ok :: "'a heap \<Rightarrow> ptr option \<Rightarrow> bool" where
  "handle_ok s e =
     (case e of
        Some (Ptr p) \<Rightarrow> (case obj_at s (Ptr p) of Inl _ \<Rightarrow> False | Inr _ \<Rightarrow> True)
      | _ \<Rightarrow> True)"

definition obj_ok :: "'a heap \<Rightarrow> sao option \<Rightarrow> bool" where
  "obj_ok s e =
     (case e of None \<Rightarrow> True | Some ob \<Rightarrow> sao_use ob \<noteq> 0 \<and> 0 \<le> sao_n ob \<and> storage_ok s ob)"

definition separate :: "sao option \<Rightarrow> sao option \<Rightarrow> bool" where
  "separate e1 e2 =
     (case e1 of
        None \<Rightarrow> True
      | Some o1 \<Rightarrow> (case e2 of None \<Rightarrow> True | Some o2 \<Rightarrow> sao_a o1 = Null \<or> sao_a o1 \<noteq> sao_a o2))"

text \<open>
  In a well-formed heap every handle is empty or refers to a live buffer, every live
  buffer has a reference count of at least one, a length of at least zero and its storage
  in order, and two buffers never own the same storage.
\<close>

definition heap_wf :: "'a heap \<Rightarrow> bool" where
  "heap_wf s \<longleftrightarrow>
     list_all (handle_ok s) (handles s) \<and>
     list_all (obj_ok s) (objs s) \<and>
     (\<forall>p<length (objs s). \<forall>q<length (objs s). p \<noteq> q \<longrightarrow> separate (objs s ! p) (objs s ! q))"

section \<open>Registry and deserializer (gecode/serialization.hh)\<close>

text \<open>
  The header declares \<open>Registry\<close> and \<open>Deserializer\<close>; the bodies of their member
  functions are in files that are not among the sources, so they are modelled from the
  spec. A space is a value of type \<open>'sp\<close>, a variable a value of type \<open>'v\<close>; a
  function that works on a space returns the new space.
\<close>

datatype error = UnknownVariableType | UnknownConstraintKind | UndefinedVariableReference

record 'd VarSpec =
  vs_vti :: int
  vs_name :: "string option"
  vs_payload :: 'd

record 'd ActorSpec =
  as_name :: string
  as_args :: "int list"
  as_payload :: 'd

type_synonym ('sp, 'v, 'd) poster = "'sp \<Rightarrow> 'v list \<Rightarrow> 'd ActorSpec \<Rightarrow> 'sp"

type_synonym ('sp, 'v, 'd) varCreator = "'sp \<Rightarrow> 'd VarSpec \<Rightarrow> 'v \<times> 'sp"

record ('sp, 'v, 'd) Registry =
  posters :: "string \<rightharpoonup> ('sp, 'v, 'd) poster"
  varCreators :: "int \<rightharpoonup> ('sp, 'v, 'd) varCreator"

text \<open>
  Modelled from the spec: \<open>Registry::add(int vti, varCreator vc)\<close> and
  \<open>Registry::add(const char* id, poster p)\<close>, declared in the header only. A
  registration overwrites an earlier one for the same identifier.
\<close>

definition add_varCreator ::
  "int \<Rightarrow> ('sp, 'v, 'd) varCreator \<Rightarrow> ('sp, 'v, 'd) Registry \<Rightarrow> ('sp, 'v, 'd) Registry" where
  "add_varCreator vti vc r = r\<lparr>varCreators := (varCreators r)(vti \<mapsto> vc)\<rparr>"

definition add_poster ::
  "string \<Rightarrow> ('sp, 'v, 'd) poster \<Rightarrow> ('sp, 'v, 'd) Registry \<Rightarrow> ('sp, 'v, 'd) Registry" where
  "add_poster name p r = r\<lparr>posters := (posters r)(name \<mapsto> p)\<rparr>"

text \<open>
  Modelled from the spec: \<open>Registry::createVar\<close>, declared in the header only. It looks
  up the factory for the type identifier of the specification, fails with
  UnknownVariableType if there is none, and otherwise invokes it with the space and the
  specification and returns what it returns.
\<close>

definition createVar ::
  "('sp, 'v, 'd) Registry \<Rightarrow> 'sp \<Rightarrow> 'd VarSpec \<Rightarrow> error + ('v \<times> 'sp)" where
  "createVar r home spec =
     (case varCreators r (vs_vti spec) of
        None \<Rightarrow> Inl UnknownVariableType
      | Some vc \<Rightarrow> Inr (vc home spec))"

definition valid_index :: "'v list \<Rightarrow> int \<Rightarrow> bool" where
  "valid_index vars i \<longleftrightarrow> 0 \<le> i \<and> nat i < length vars"

text \<open>
  Modelled from the spec: the invocation of a poster, whose code is not among the sources.
  The poster receives the space, the whole sequence of variables and the specification,
  and resolves the argument indices of the specification against the variables itself: an
  index that is not a position in the sequence fails with UndefinedVariableReference. The
  registered function is what the poster does once its indices are resolved.
\<close>

definition invoke_poster ::
  "('sp, 'v, 'd) poster \<Rightarrow> 'sp \<Rightarrow> 'v list \<Rightarrow> 'd ActorSpec \<Rightarrow> error + 'sp" where
  "invoke_poster p home vars spec =
     (if list_all (valid_index vars) (as_args spec)
      then Inr (p home vars spec)
      else Inl UndefinedVariableReference)"

text \<open>
  Modelled from the spec: \<open>Registry::post\<close>, declared in the header only. It looks up the
  poster for the kind of the specification, fails with UnknownConstraintKind if there is
  none, and otherwise invokes it with the space, the whole sequence of variables and the
  specification.
\<close>

definition post ::
  "('sp, 'v, 'd) Registry \<Rightarrow> 'sp \<Rightarrow> 'v list \<Rightarrow> 'd ActorSpec \<Rightarrow> error + 'sp" where
  "post r home vars spec =
     (case posters r (as_name spec) of
        None \<Rightarrow> Inl UnknownConstraintKind
      | Some p \<Rightarrow> invoke_poster p home vars spec)"

text \<open>
  The data members of \<open>Deserializer\<close>: the space \<open>home\<close>, the map \<open>m\<close> of the
  variables to reuse, and the vector \<open>v\<close> of the variables created, in creation order.
\<close>

record ('sp, 'v) Deserializer =
  ds_home :: 'sp
  ds_m :: "string \<rightharpoonup> 'v"
  ds_v :: "'v list"

text \<open>
  Modelled from the spec: \<open>Deserializer::var\<close>, declared in the header only. It calls
  \<open>createVar\<close>, appends the result to the created variables and records the
  identifier of the specification, if it has one, in the map. A failure leaves the
  deserializer as it was; the result pairs the failure, if any, with the deserializer
  after the call.
\<close>

definition Deserializer_var ::
  "('sp, 'v, 'd) Registry \<Rightarrow> ('sp, 'v) Deserializer \<Rightarrow> 'd VarSpec
     \<Rightarrow> error option \<times> ('sp, 'v) Deserializer" where
  "Deserializer_var r d spec =
     (case createVar r (ds_home d) spec of
        Inl e \<Rightarrow> (Some e, d)
      | Inr (x, home') \<Rightarrow>
          (None,
           d\<lparr>ds_home := home',
             ds_v := ds_v d @ [x],
             ds_m := (case vs_name spec of None \<Rightarrow> ds_m d | Some name \<Rightarrow> (ds_m d)(name \<mapsto> x))\<rparr>))"

text \<open>
  Modelled from the spec: \<open>Deserializer::post\<close>, declared in the header only. It calls
  \<open>post\<close> of the registry with the space, the created variables and the
  specification, and does nothing else: the lookup of the kind comes first, and the
  indices are resolved by the poster that the lookup finds. A failure leaves the
  deserializer as it was; the result pairs the failure, if any, with the deserializer
  after the call.
\<close>

definition Deserializer_post ::
  "('sp, 'v, 'd) Registry \<Rightarrow> ('sp, 'v) Deserializer \<Rightarrow> 'd ActorSpec
     \<Rightarrow> error option \<times> ('sp, 'v) Deserializer" where
  "Deserializer_post r d spec =
     (case post r (ds_home d) (ds_v d) spec of
        Inl e \<Rightarrow> (Some e, d)
      | Inr home' \<Rightarrow> (None, d\<lparr>ds_home := home'\<rparr>))"

text \<open>
  An example: a space counts its variables and lists the constraints posted, each as the
  list of the variables it relates. The factory for type 1 creates the next variable; the
  poster for \<open>eq\<close> records the variables at the argument positions.
\<close>

type_synonym example_space = "nat \<times> nat list list"

definition bounded_var :: "(example_space, nat, unit) varCreator" where
  "bounded_var sp spec = (fst sp, (Suc (fst sp), snd sp))"

definition eq_poster :: "(example_space, nat, unit) poster" where
  "eq_poster sp vars spec = (fst sp, snd sp @ [map (\<lambda>i. vars ! nat i) (as_args spec)])"

definition example_registry :: "(example_space, nat, unit) Registry" where
  "example_registry =
     add_poster ''eq'' eq_poster
       (add_varCreator 1 bounded_var \<lparr>posters = Map.empty, varCreators = Map.empty\<rparr>)"

definition var_spec :: "int \<Rightarrow> unit VarSpec" where
  "var_spec t = \<lparr>vs_vti = t, vs_name = None, vs_payload = ()\<rparr>"

definition eq_spec :: "int list \<Rightarrow> unit ActorSpec" where
  "eq_spec args = \<lparr>as_name = ''eq'', as_args = args, as_payload = ()\<rparr>"

text \<open>A specification of a kind for which \<open>example_registry\<close> has no poster.\<close>

definition neq_spec :: "int list \<Rightarrow> unit ActorSpec" where
  "neq_spec args = \<lparr>as_name = ''neq'', as_args = args, as_payload = ()\<rparr>"

text \<open>The deserializer after two variables of type 1 have been declared.\<close>

definition two_declared :: "(example_space, nat) Deserializer" where
  "two_declared =
     snd (Deserializer_var example_registry
            (snd (Deserializer_var example_registry
                    \<lparr>ds_home = (0, []), ds_m = Map.empty, ds_v = []\<rparr> (var_spec 1)))
            (var_spec 1))"

section \<open>Properties of the shared arrays\<close>

lemma and_then_Inr [simp]: "and_then (Inr x) f = f x"
  by (simp add: and_then_def)

lemma and_then_Inl [simp]: "and_then (Inl e) f = Inl e"
  by (simp add: and_then_def)

lemma block_at_Ptr:
  "block_at s (Ptr b) = Inr xs \<longleftrightarrow> b < length (blocks s) \<and> blocks s ! b = Some xs"
  by (auto simp: block_at_def split: option.splits)

lemma obj_at_Ptr:
  "obj_at s (Ptr p) = Inr ob \<longleftrightarrow> p < length (objs s) \<and> objs s ! p = Some ob"
  by (auto simp: obj_at_def split: option.splits)

lemma handle_at_Inr:
  "handle_at s h = Inr p \<longleftrightarrow> h < length (handles s) \<and> handles s ! h = Some p"
  by (auto simp: handle_at_def split: option.splits)

lemma copy_down_ok:
  assumes "a < length (blocks s)" "blocks s ! a = Some xs"
    and "d < length (blocks s)" "blocks s ! d = Some ys"
    and "a \<noteq> d" "k \<le> length xs" "k \<le> length ys"
  shows "copy_down (Ptr a) (Ptr d) k s =
         Inr (s\<lparr>blocks := (blocks s)[d := Some (take k xs @ drop k ys)],
                trace := trace s @ map (Construct d) (rev [0..<k])\<rparr>)"
  using assms
proof (induction k arbitrary: s ys)
  case 0
  then have "(blocks s)[d := Some ys] = blocks s" by (metis list_update_id)
  then show ?case by simp
next
  case (Suc k)
  let ?s1 = "emit (Construct d k) (s\<lparr>blocks := (blocks s)[d := Some (ys[k := xs ! k])]\<rparr>)"
  have step: "construct_copy (Ptr a) (Ptr d) k s = Inr ?s1"
    using Suc.prems by (simp add: construct_copy_def block_at_def)
  have rest: "copy_down (Ptr a) (Ptr d) k ?s1 =
      Inr (?s1\<lparr>blocks := (blocks ?s1)[d := Some (take k xs @ drop k (ys[k := xs ! k]))],
                trace := trace ?s1 @ map (Construct d) (rev [0..<k])\<rparr>)"
    using Suc.prems by (intro Suc.IH) (simp_all add: emit_def)
  have lists: "take k xs @ drop k (ys[k := xs ! k]) = take (Suc k) xs @ drop (Suc k) ys"
    using Suc.prems by (simp add: take_Suc_conv_app_nth Cons_nth_drop_Suc [symmetric] upd_conv_take_nth_drop)
  show ?case
    by (simp add: step rest lists) (simp add: emit_def)
qed

lemma destruct_down_ok:
  assumes "b < length (blocks s)" "blocks s ! b = Some xs" "k \<le> length xs"
  shows "destruct_down (Ptr b) k s =
         Inr (s\<lparr>blocks := (blocks s)[b := Some (replicate k None @ drop k xs)],
                trace := trace s @ map (Destruct b) (rev [0..<k])\<rparr>)"
  using assms
proof (induction k arbitrary: s xs)
  case 0
  then have "(blocks s)[b := Some xs] = blocks s" by (metis list_update_id)
  then show ?case by simp
next
  case (Suc k)
  let ?s1 = "emit (Destruct b k) (s\<lparr>blocks := (blocks s)[b := Some (xs[k := None])]\<rparr>)"
  have step: "destruct (Ptr b) k s = Inr ?s1"
    using Suc.prems by (simp add: destruct_def block_at_def)
  have rest: "destruct_down (Ptr b) k ?s1 =
      Inr (?s1\<lparr>blocks := (blocks ?s1)[b := Some (replicate k None @ drop k (xs[k := None]))],
                trace := trace ?s1 @ map (Destruct b) (rev [0..<k])\<rparr>)"
    using Suc.prems by (intro Suc.IH) (simp_all add: emit_def)
  have lists: "replicate k None @ drop k (xs[k := None]) = replicate (Suc k) None @ drop (Suc k) xs"
    using Suc.prems by (simp add: upd_conv_take_nth_drop replicate_app_Cons_same)
  show ?case
    by (simp add: step rest lists) (simp add: emit_def)
qed


lemma SAO_subscribe_ok:
  "obj_at s (Ptr q) = Inr ob \<Longrightarrow>
   SAO_subscribe (Ptr q) s = Inr (put_obj q (ob\<lparr>sao_use := sao_use ob + 1\<rparr>) s)"
  by (simp add: SAO_subscribe_def)

lemma SAO_release_keep:
  "obj_at s (Ptr q) = Inr ob \<Longrightarrow> sao_use ob \<noteq> 1 \<Longrightarrow>
   SAO_release (Ptr q) s = Inr (put_obj q (ob\<lparr>sao_use := sao_use ob - 1\<rparr>) s)"
  by (simp add: SAO_release_def Let_def)

lemma SAO_delete_empty:
  "obj_at s (Ptr q) = Inr ob \<Longrightarrow> sao_n ob \<le> 0 \<Longrightarrow>
   SAO_delete (Ptr q) s = Inr (emit (Delete q) (s\<lparr>objs := (objs s)[q := None]\<rparr>))"
  by (simp add: SAO_delete_def)

lemma SAO_delete_storage:
  assumes "obj_at s (Ptr q) = Inr ob" "0 < sao_n ob" "sao_a ob = Ptr b"
    and "block_at s (Ptr b) = Inr xs" "nat (sao_n ob) \<le> length xs"
  shows "SAO_delete (Ptr q) s =
         Inr (s\<lparr>objs := (objs s)[q := None], blocks := (blocks s)[b := None],
                trace := trace s @ map (Destruct b) (rev [0..<nat (sao_n ob)]) @ [MFree b, Delete q]\<rparr>)"
proof -
  from assms(4) have b: "b < length (blocks s)" "blocks s ! b = Some xs"
    by (simp_all add: block_at_Ptr)
  show ?thesis
    using assms(1,2,3,5) b
    by (simp add: SAO_delete_def destruct_down_ok mfree_def block_at_def emit_def)
qed

lemma SAO_release_last_empty:
  assumes "obj_at s (Ptr q) = Inr ob" "sao_use ob = 1" "sao_n ob \<le> 0"
  shows "SAO_release (Ptr q) s = Inr (emit (Delete q) (s\<lparr>objs := (objs s)[q := None]\<rparr>))"
proof -
  let ?ob = "ob\<lparr>sao_use := sao_use ob - 1\<rparr>"
  let ?s1 = "put_obj q ?ob s"
  from assms(1) have q: "q < length (objs s)" by (simp add: obj_at_Ptr)
  have 1: "obj_at ?s1 (Ptr q) = Inr ?ob"
    using q by (simp add: obj_at_Ptr put_obj_def)
  have "SAO_delete (Ptr q) ?s1 = Inr (emit (Delete q) (?s1\<lparr>objs := (objs ?s1)[q := None]\<rparr>))"
    by (rule SAO_delete_empty [OF 1]) (use assms in simp)
  then show ?thesis
    using assms(1,2) by (simp add: SAO_release_def Let_def put_obj_def emit_def)
qed

lemma SAO_release_last_storage:
  assumes "obj_at s (Ptr q) = Inr ob" "sao_use ob = 1" "0 < sao_n ob" "sao_a ob = Ptr b"
    and "block_at s (Ptr b) = Inr xs" "nat (sao_n ob) \<le> length xs"
  shows "SAO_release (Ptr q) s =
         Inr (s\<lparr>objs := (objs s)[q := None], blocks := (blocks s)[b := None],
                trace := trace s @ map (Destruct b) (rev [0..<nat (sao_n ob)]) @ [MFree b, Delete q]\<rparr>)"
proof -
  let ?ob = "ob\<lparr>sao_use := sao_use ob - 1\<rparr>"
  let ?s1 = "put_obj q ?ob s"
  from assms(1) have q: "q < length (objs s)" by (simp add: obj_at_Ptr)
  have 1: "obj_at ?s1 (Ptr q) = Inr ?ob"
    using q by (simp add: obj_at_Ptr put_obj_def)
  have 2: "block_at ?s1 (Ptr b) = Inr xs"
    using assms(5) by (simp add: block_at_Ptr put_obj_def)
  have "SAO_delete (Ptr q) ?s1 =
         Inr (?s1\<lparr>objs := (objs ?s1)[q := None], blocks := (blocks ?s1)[b := None],
                trace := trace ?s1 @ map (Destruct b) (rev [0..<nat (sao_n ?ob)]) @ [MFree b, Delete q]\<rparr>)"
    by (rule SAO_delete_storage [OF 1 _ _ 2]) (use assms in simp_all)
  then show ?thesis
    using assms(1,2) by (simp add: SAO_release_def Let_def put_obj_def)
qed







lemma count_Delete_Destruct [simp]: "count_list (map (Destruct b) is) (Delete p) = 0"
  by (induction "is") simp_all

lemma block_at_cong: "blocks s' = blocks s \<Longrightarrow> block_at s' p = block_at s p"
  by (cases p) (simp_all add: block_at_def)

lemma storage_ok_cong:
  assumes "blocks s' = blocks s" "sao_a ob' = sao_a ob" "sao_n ob' = sao_n ob"
  shows "storage_ok s' ob' = storage_ok s ob"
  using assms(2,3) by (simp add: storage_ok_def block_at_cong [OF assms(1)] split: sum.splits)



lemma SAO_shrink_storage:
  assumes ob: "obj_at s (Ptr q) = Inr ob" and m: "0 < m" "m < sao_n ob"
    and a: "sao_a ob = Ptr b" and xs: "block_at s (Ptr b) = Inr xs" and len: "nat m \<le> length xs"
  shows "SAO_shrink (Ptr q) m s =
         Inr (s\<lparr>objs := (objs s)[q := Some (ob\<lparr>sao_n := m, sao_a := Ptr (length (blocks s))\<rparr>)],
                blocks := (blocks s)[b := None] @ [Some (take (nat m) xs)],
                trace := trace s @ Malloc (length (blocks s)) (nat m) #
                           map (Construct (length (blocks s))) (rev [0..<nat m]) @ [MFree b]\<rparr>)"
proof -
  let ?d = "length (blocks s)"
  let ?s1 = "s\<lparr>blocks := blocks s @ [Some (replicate (nat m) None)],
               trace := trace s @ [Malloc ?d (nat m)]\<rparr>"
  from xs have b: "b < ?d" "blocks s ! b = Some xs" by (simp_all add: block_at_Ptr)
  have "copy_down (Ptr b) (Ptr ?d) (nat m) ?s1 =
        Inr (?s1\<lparr>blocks := (blocks ?s1)[?d := Some (take (nat m) xs @ drop (nat m) (replicate (nat m) None))],
                  trace := trace ?s1 @ map (Construct ?d) (rev [0..<nat m])\<rparr>)"
    using b len by (intro copy_down_ok) (simp_all add: emit_def nth_append)
  then have copy: "copy_down (Ptr b) (Ptr ?d) (nat m) ?s1 =
        Inr (s\<lparr>blocks := blocks s @ [Some (take (nat m) xs)],
               trace := trace s @ Malloc ?d (nat m) # map (Construct ?d) (rev [0..<nat m])\<rparr>)"
    by (simp add: emit_def)
  show ?thesis
    using ob m a b
    by (simp add: SAO_shrink_def malloc_def copy mfree_def block_at_def nth_append emit_def
        put_obj_def list_update_append)
qed

lemma SAO_shrink_to_zero:
  assumes ob: "obj_at s (Ptr q) = Inr ob" and m: "m \<le> 0" "m < sao_n ob" "0 < sao_n ob"
    and a: "sao_a ob = Ptr b" and xs: "block_at s (Ptr b) = Inr xs"
  shows "SAO_shrink (Ptr q) m s =
         Inr (s\<lparr>objs := (objs s)[q := Some (ob\<lparr>sao_n := m, sao_a := Null\<rparr>)],
                blocks := (blocks s)[b := None],
                trace := trace s @ [MFree b]\<rparr>)"
  using assms by (simp add: SAO_shrink_def mfree_def emit_def put_obj_def)


lemma SAO_ensure_noop:
  "obj_at s (Ptr q) = Inr ob \<Longrightarrow> i < sao_n ob \<Longrightarrow> SAO_ensure (Ptr q) i s = Inr s"
  by (simp add: SAO_ensure_def)

lemma SAO_ensure_grow_empty:
  assumes ob: "obj_at s (Ptr q) = Inr ob" and n: "sao_n ob = 0" and i: "0 \<le> i"
  shows "SAO_ensure (Ptr q) i s =
         Inr (s\<lparr>objs := (objs s)[q := Some (ob\<lparr>sao_n := i, sao_a := Ptr (length (blocks s))\<rparr>)],
                blocks := blocks s @ [Some (replicate (nat i) None)],
                trace := trace s @ [Malloc (length (blocks s)) (nat i)]\<rparr>)"
  using assms
  by (simp add: SAO_ensure_def INT_MAX_def INT_MIN_def malloc_def copy_elems_def emit_def
      put_obj_def Let_def)

lemma SAO_ensure_unfold:
  assumes ob: "obj_at s (Ptr q) = Inr ob" and n: "0 \<le> sao_n ob" "sao_n ob \<le> i"
    and ov: "2 * sao_n ob \<le> INT_MAX" and m: "m = max (2 * sao_n ob) i"
  shows "SAO_ensure (Ptr q) i s =
         and_then (copy_elems (sao_a ob) (fst (malloc (nat m) s)) (sao_n ob) (snd (malloc (nat m) s)))
           (\<lambda>s2. and_then (if 0 < sao_n ob then mfree (sao_a ob) s2 else Inr s2)
             (\<lambda>s3. Inr (put_obj q (ob\<lparr>sao_n := m, sao_a := fst (malloc (nat m) s)\<rparr>) s3)))"
proof -
  have "\<not> (2 * sao_n ob > INT_MAX \<or> 2 * sao_n ob < INT_MIN)"
    using ov n by (simp add: INT_MIN_def)
  moreover have "\<not> max (2 * sao_n ob) i < 0" using n by simp
  ultimately show ?thesis
    using ob n unfolding SAO_ensure_def m by (simp add: Let_def split_def)
qed

lemma SAO_ensure_grow_storage:
  assumes ob: "obj_at s (Ptr q) = Inr ob" and n: "0 < sao_n ob" "sao_n ob \<le> i"
    and ov: "2 * sao_n ob \<le> INT_MAX" and m: "m = max (2 * sao_n ob) i"
    and a: "sao_a ob = Ptr b" and xs: "block_at s (Ptr b) = Inr xs"
    and len: "nat (sao_n ob) \<le> length xs"
  shows "SAO_ensure (Ptr q) i s =
         Inr (s\<lparr>objs := (objs s)[q := Some (ob\<lparr>sao_n := m, sao_a := Ptr (length (blocks s))\<rparr>)],
                blocks := (blocks s)[b := None] @
                  [Some (take (nat (sao_n ob)) xs @ replicate (nat m - nat (sao_n ob)) None)],
                trace := trace s @ Malloc (length (blocks s)) (nat m) #
                           map (Construct (length (blocks s))) (rev [0..<nat (sao_n ob)]) @
                           [MFree b]\<rparr>)"
proof -
  let ?d = "length (blocks s)"
  let ?k = "nat (sao_n ob)"
  let ?s1 = "s\<lparr>blocks := blocks s @ [Some (replicate (nat m) None)],
               trace := trace s @ [Malloc ?d (nat m)]\<rparr>"
  from xs have b: "b < ?d" "blocks s ! b = Some xs" by (simp_all add: block_at_Ptr)
  have km: "?k \<le> nat m" using n m by simp
  have "copy_down (Ptr b) (Ptr ?d) ?k ?s1 =
        Inr (?s1\<lparr>blocks := (blocks ?s1)[?d := Some (take ?k xs @ drop ?k (replicate (nat m) None))],
                  trace := trace ?s1 @ map (Construct ?d) (rev [0..<?k])\<rparr>)"
    using b len km by (intro copy_down_ok) (simp_all add: nth_append)
  then have copy: "copy_down (Ptr b) (Ptr ?d) ?k ?s1 =
        Inr (s\<lparr>blocks := blocks s @ [Some (take ?k xs @ replicate (nat m - ?k) None)],
               trace := trace s @ Malloc ?d (nat m) # map (Construct ?d) (rev [0..<?k])\<rparr>)"
    by simp
  have "0 \<le> sao_n ob" using n by simp
  from SAO_ensure_unfold [OF ob this n(2) ov m] show ?thesis
    using n(1) a b
    by (simp add: malloc_def emit_def copy_elems_def copy mfree_def block_at_def nth_append
        put_obj_def list_update_append)
qed

lemma handle_at_frame [simp]:
  "handle_at (objs_update f s) h = handle_at s h"
  "handle_at (blocks_update g s) h = handle_at s h"
  "handle_at (trace_update k s) h = handle_at s h"
  by (simp_all add: handle_at_def)

lemma obj_at_frame [simp]:
  "obj_at (handles_update f s) p = obj_at s p"
  "obj_at (blocks_update g s) p = obj_at s p"
  "obj_at (trace_update k s) p = obj_at s p"
  by (simp_all add: obj_at_def split: ptr.splits)

lemma block_at_frame [simp]:
  "block_at (handles_update f s) p = block_at s p"
  "block_at (objs_update g s) p = block_at s p"
  "block_at (trace_update k s) p = block_at s p"
  by (simp_all add: block_at_def split: ptr.splits)

lemma obj_at_update:
  "obj_at (s\<lparr>objs := os\<rparr>) (Ptr p) =
     (if p < length os
      then (case os ! p of None \<Rightarrow> Inl DanglingPointer | Some ob \<Rightarrow> Inr ob)
      else Inl DanglingPointer)"
  by (simp add: obj_at_def)

lemma block_at_update:
  "block_at (s\<lparr>blocks := bs\<rparr>) (Ptr c) =
     (if c < length bs
      then (case bs ! c of None \<Rightarrow> Inl DanglingPointer | Some xs \<Rightarrow> Inr xs)
      else Inl DanglingPointer)"
  by (simp add: block_at_def)

lemma elements_Inr:
  assumes "handle_at s h = Inr (Ptr q)" "obj_at s (Ptr q) = Inr ob"
  shows "elements h s = Inr es \<longleftrightarrow>
         (if sao_n ob \<le> 0 then es = []
          else \<exists>xs. block_at s (sao_a ob) = Inr xs \<and> nat (sao_n ob) \<le> length xs \<and>
                 es = take (nat (sao_n ob)) xs)"
  using assms by (auto simp: elements_def and_then_def split: sum.splits)

lemma wf_handle:
  assumes "heap_wf s" "handle_at s h = Inr (Ptr p)"
  shows "\<exists>ob. obj_at s (Ptr p) = Inr ob"
proof -
  from assms(2) have "h < length (handles s)" "handles s ! h = Some (Ptr p)"
    by (simp_all add: handle_at_Inr)
  moreover from assms(1) have "list_all (handle_ok s) (handles s)" by (simp add: heap_wf_def)
  ultimately have "handle_ok s (Some (Ptr p))"
    by (metis list_all_length)
  then show ?thesis
    by (simp add: handle_ok_def split: sum.splits)
qed

lemma wf_obj:
  assumes "heap_wf s" "obj_at s (Ptr p) = Inr ob"
  shows "sao_use ob \<noteq> 0" "0 \<le> sao_n ob" "storage_ok s ob"
proof -
  from assms(2) have "p < length (objs s)" "objs s ! p = Some ob"
    by (simp_all add: obj_at_Ptr)
  moreover from assms(1) have "list_all (obj_ok s) (objs s)" by (simp add: heap_wf_def)
  ultimately have "obj_ok s (Some ob)"
    by (metis list_all_length)
  then show "sao_use ob \<noteq> 0" "0 \<le> sao_n ob" "storage_ok s ob"
    by (simp_all add: obj_ok_def)
qed

lemma wf_separate:
  assumes "heap_wf s" "obj_at s (Ptr p) = Inr ob" "obj_at s (Ptr q) = Inr oq" "p \<noteq> q"
  shows "sao_a ob = Null \<or> sao_a ob \<noteq> sao_a oq"
proof -
  from assms(2,3) have "p < length (objs s)" "objs s ! p = Some ob"
    "q < length (objs s)" "objs s ! q = Some oq"
    by (simp_all add: obj_at_Ptr)
  with assms(1,4) have "separate (Some ob) (Some oq)"
    unfolding heap_wf_def by metis
  then show ?thesis by (simp add: separate_def)
qed

lemma storage_ok_block:
  assumes "storage_ok s ob" "0 < sao_n ob"
  obtains b xs where "sao_a ob = Ptr b" "block_at s (Ptr b) = Inr xs" "nat (sao_n ob) \<le> length xs"
proof -
  from assms obtain xs where xs: "block_at s (sao_a ob) = Inr xs" "nat (sao_n ob) \<le> length xs"
    by (auto simp: storage_ok_def split: sum.splits)
  then obtain b where "sao_a ob = Ptr b"
    by (cases "sao_a ob") (simp_all add: block_at_def)
  with xs that show ?thesis by simp
qed

lemma SAO_release_frame:
  assumes ob: "obj_at s (Ptr q) = Inr ob" and st: "storage_ok s ob"
  shows "\<exists>s1. SAO_release (Ptr q) s = Inr s1 \<and> handles s1 = handles s \<and>
           obj_at s1 (Ptr q) =
             (if sao_use ob = 1 then Inl DanglingPointer
              else Inr (ob\<lparr>sao_use := sao_use ob - 1\<rparr>)) \<and>
           (\<forall>p. p \<noteq> q \<longrightarrow> obj_at s1 (Ptr p) = obj_at s (Ptr p)) \<and>
           (\<forall>c. sao_a ob \<noteq> Ptr c \<longrightarrow> block_at s1 (Ptr c) = block_at s (Ptr c)) \<and>
           (sao_use ob \<noteq> 1 \<longrightarrow> blocks s1 = blocks s \<and> trace s1 = trace s)"
proof -
  from ob have q: "q < length (objs s)" by (simp add: obj_at_Ptr)
  consider "sao_use ob \<noteq> 1" | "sao_use ob = 1" "sao_n ob \<le> 0" | "sao_use ob = 1" "0 < sao_n ob"
    by fastforce
  then show ?thesis
  proof cases
    case 1
    from SAO_release_keep [OF ob 1] 1 q show ?thesis
      by (simp add: put_obj_def obj_at_update) (simp add: obj_at_def)
  next
    case 2
    from SAO_release_last_empty [OF ob 2] 2 q show ?thesis
      by (simp add: emit_def obj_at_update) (simp add: obj_at_def)
  next
    case 3
    from storage_ok_block [OF st 3(2)] obtain b xs where b:
      "sao_a ob = Ptr b" "block_at s (Ptr b) = Inr xs" "nat (sao_n ob) \<le> length xs"
      by blast
    from b(2) have bl: "b < length (blocks s)" by (simp add: block_at_Ptr)
    from SAO_release_last_storage [OF ob 3 b] 3 q b(1) bl show ?thesis
      by (simp add: obj_at_update block_at_update) (simp add: obj_at_def block_at_def)
  qed
qed

lemma put_handle_same:
  "handle_at s h = Inr p \<Longrightarrow> put_handle h p s = s"
  by (simp add: put_handle_def handle_at_Inr list_update_same_conv)

lemma handle_at_put_handle:
  "h < length (handles s) \<Longrightarrow>
   handle_at (put_handle h p s) g = (if g = h then Inr p else handle_at s g)"
  by (simp add: put_handle_def handle_at_def)

lemma obj_at_put_handle [simp]: "obj_at (put_handle h p s) q = obj_at s q"
  by (simp add: put_handle_def)

lemma block_at_put_handle [simp]: "block_at (put_handle h p s) q = block_at s q"
  by (simp add: put_handle_def)

lemma handles_cong: "handles s' = handles s \<Longrightarrow> handle_at s' h = handle_at s h"
  by (simp add: handle_at_def)

lemma handle_at_put_obj [simp]: "handle_at (put_obj q ob s) h = handle_at s h"
  by (simp add: put_obj_def)

lemma block_at_put_obj [simp]: "block_at (put_obj q ob s) p = block_at s p"
  by (simp add: put_obj_def)

lemma obj_at_put_obj:
  "q < length (objs s) \<Longrightarrow>
   obj_at (put_obj q ob s) (Ptr p) = (if p = q then Inr ob else obj_at s (Ptr p))"
  by (simp add: put_obj_def obj_at_def)

lemma put_obj_same: "obj_at s (Ptr q) = Inr ob \<Longrightarrow> put_obj q ob s = s"
  by (simp add: put_obj_def obj_at_Ptr list_update_same_conv)

lemma put_obj_twice [simp]: "put_obj q ob (put_obj q ob' s) = put_obj q ob s"
  by (simp add: put_obj_def)

lemma elements_eqI:
  assumes "handle_at s' a = Inr (Ptr p)" "handle_at s a = Inr (Ptr p)"
    and "obj_at s' (Ptr p) = Inr ob'" "obj_at s (Ptr p) = Inr ob"
    and "sao_n ob' = sao_n ob" "sao_a ob' = sao_a ob"
    and "block_at s' (sao_a ob) = block_at s (sao_a ob)"
  shows "elements a s' = elements a s"
  using assms by (simp add: elements_def cong: if_cong)

lemma elements_same_ptr: "handle_at s h = handle_at s a \<Longrightarrow> elements h s = elements a s"
  by (simp add: elements_def)

lemma release_or_skip:
  assumes wf: "heap_wf s" and h: "handle_at s h = Inr ph"
  shows "\<exists>s1. (if ph \<noteq> Null then SAO_release ph s else Inr s) = Inr s1 \<and>
           handles s1 = handles s \<and>
           (\<forall>p. ph \<noteq> Ptr p \<longrightarrow> obj_at s1 (Ptr p) = obj_at s (Ptr p)) \<and>
           (\<forall>p ob. ph \<noteq> Ptr p \<and> obj_at s (Ptr p) = Inr ob \<longrightarrow>
              block_at s1 (sao_a ob) = block_at s (sao_a ob))"
proof (cases ph)
  case Null
  then show ?thesis by simp
next
  case (Ptr q)
  with wf h obtain oq where oq: "obj_at s (Ptr q) = Inr oq"
    using wf_handle by blast
  from SAO_release_frame [OF oq wf_obj(3) [OF wf oq]] obtain s1 where s1:
    "SAO_release (Ptr q) s = Inr s1" "handles s1 = handles s"
    "\<forall>p. p \<noteq> q \<longrightarrow> obj_at s1 (Ptr p) = obj_at s (Ptr p)"
    "\<forall>c. sao_a oq \<noteq> Ptr c \<longrightarrow> block_at s1 (Ptr c) = block_at s (Ptr c)"
    by blast
  have "block_at s1 (sao_a ob) = block_at s (sao_a ob)"
    if "q \<noteq> p" "obj_at s (Ptr p) = Inr ob" for p ob
  proof (cases "sao_a ob")
    case Null
    then show ?thesis by (simp add: block_at_def)
  next
    case (Ptr c)
    from wf_separate [OF wf that(2) oq that(1) [symmetric]] Ptr have "sao_a oq \<noteq> Ptr c" by auto
    with s1(4) Ptr show ?thesis by simp
  qed
  with s1 Ptr show ?thesis by auto
qed

lemma SAO_copy_empty:
  assumes ob: "obj_at s (Ptr p) = Inr ob" and n: "sao_n ob = 0"
  shows "SAO_copy (Ptr p) s =
         Inr (length (objs s),
              s\<lparr>objs := objs s @ [Some \<lparr>sao_use = 1, sao_a = Null, sao_n = 0\<rparr>],
                trace := trace s @ [New (length (objs s))]\<rparr>)"
  using assms
  by (simp add: SAO_copy_def SAO_new_def emit_def Let_def obj_at_update nth_append copy_elems_def)

lemma SAO_copy_storage:
  assumes ob: "obj_at s (Ptr p) = Inr ob" and n: "0 < sao_n ob"
    and a: "sao_a ob = Ptr b" and xs: "block_at s (Ptr b) = Inr xs"
    and len: "nat (sao_n ob) \<le> length xs"
  shows "SAO_copy (Ptr p) s =
         Inr (length (objs s),
              s\<lparr>objs := objs s @ [Some \<lparr>sao_use = 1, sao_a = Ptr (length (blocks s)),
                                       sao_n = sao_n ob\<rparr>],
                blocks := blocks s @ [Some (take (nat (sao_n ob)) xs)],
                trace := trace s @ New (length (objs s)) #
                           Malloc (length (blocks s)) (nat (sao_n ob)) #
                           map (Construct (length (blocks s))) (rev [0..<nat (sao_n ob)])\<rparr>)"
proof -
  let ?d = "length (blocks s)"
  let ?q = "length (objs s)"
  let ?k = "nat (sao_n ob)"
  let ?s1 = "s\<lparr>objs := objs s @ [Some \<lparr>sao_use = 1, sao_a = Ptr ?d, sao_n = sao_n ob\<rparr>],
               blocks := blocks s @ [Some (replicate ?k None)],
               trace := trace s @ [New ?q, Malloc ?d ?k]\<rparr>"
  from xs have b: "b < ?d" "blocks s ! b = Some xs" by (simp_all add: block_at_Ptr)
  have new: "SAO_new (sao_n ob) s = (?q, ?s1)"
    using n by (simp add: SAO_new_def malloc_def emit_def Let_def)
  have "copy_down (Ptr b) (Ptr ?d) ?k ?s1 =
        Inr (?s1\<lparr>blocks := (blocks ?s1)[?d := Some (take ?k xs @ drop ?k (replicate ?k None))],
                  trace := trace ?s1 @ map (Construct ?d) (rev [0..<?k])\<rparr>)"
    using b len by (intro copy_down_ok) (simp_all add: nth_append)
  then have copy: "copy_down (Ptr b) (Ptr ?d) ?k ?s1 =
        Inr (s\<lparr>objs := objs s @ [Some \<lparr>sao_use = 1, sao_a = Ptr ?d, sao_n = sao_n ob\<rparr>],
               blocks := blocks s @ [Some (take ?k xs)],
               trace := trace s @ New ?q # Malloc ?d ?k # map (Construct ?d) (rev [0..<?k])\<rparr>)"
    by simp
  have o': "obj_at ?s1 (Ptr ?q) = Inr \<lparr>sao_use = 1, sao_a = Ptr ?d, sao_n = sao_n ob\<rparr>"
    by (simp add: obj_at_update)
  show ?thesis
    using ob n a unfolding SAO_copy_def
    by (simp add: new obj_at_update copy_elems_def copy)
qed

lemma elements_eqI':
  assumes "handle_at s' a = Inr (Ptr p)" "handle_at s a = Inr (Ptr p)"
    and "obj_at s' (Ptr p) = Inr ob'" "obj_at s (Ptr p) = Inr ob"
    and "sao_n ob' = sao_n ob" "sao_a ob' = sao_a ob"
    and "0 < sao_n ob \<Longrightarrow> block_at s' (sao_a ob) = block_at s (sao_a ob)"
  shows "elements a s' = elements a s"
  using assms by (simp add: elements_def cong: if_cong)

lemma SharedArray_copy_result:
  assumes wf: "heap_wf s" and a: "handle_at s a = Inr pa"
  shows "\<exists>s1. SharedArray_copy a s = Inr (length (handles s), s1) \<and>
           handles s1 = handles s @ [Some pa] \<and>
           length (objs s1) = length (objs s) \<and> blocks s1 = blocks s \<and>
           (\<forall>q os. obj_at s (Ptr q) = Inr os \<longrightarrow>
              (\<exists>os'. obj_at s1 (Ptr q) = Inr os' \<and> sao_n os' = sao_n os \<and> sao_a os' = sao_a os)) \<and>
           (if pa \<noteq> Null then SAO_release pa s1 else Inr s1) =
             Inr (s\<lparr>handles := handles s @ [Some pa]\<rparr>)"
proof (cases pa)
  case Null
  with a show ?thesis by (simp add: SharedArray_copy_def Let_def)
next
  case (Ptr p)
  let ?t = "s\<lparr>handles := handles s @ [Some pa]\<rparr>"
  from wf a Ptr obtain ob where ob: "obj_at s (Ptr p) = Inr ob"
    using wf_handle by blast
  from wf_obj(1) [OF wf ob] have u: "sao_use ob + 1 \<noteq> 1" by simp
  let ?ob = "ob\<lparr>sao_use := sao_use ob + 1\<rparr>"
  let ?s1 = "put_obj p ?ob ?t"
  from ob have pl: "p < length (objs ?t)" by (simp add: obj_at_Ptr)
  have obt: "obj_at ?t (Ptr p) = Inr ob" using ob by simp
  have cp: "SharedArray_copy a s = Inr (length (handles s), ?s1)"
    using a Ptr obt by (simp add: SharedArray_copy_def Let_def SAO_subscribe_ok)
  have ob1: "obj_at ?s1 (Ptr p) = Inr ?ob" using pl by (simp add: obj_at_put_obj)
  have "SAO_release (Ptr p) ?s1 = Inr (put_obj p (?ob\<lparr>sao_use := sao_use ?ob - 1\<rparr>) ?s1)"
    using ob1 u by (intro SAO_release_keep) simp_all
  also have "put_obj p (?ob\<lparr>sao_use := sao_use ?ob - 1\<rparr>) ?s1 = put_obj p ob ?t" by simp
  also have "\<dots> = ?t" using obt by (rule put_obj_same)
  finally have rel: "SAO_release (Ptr p) ?s1 = Inr ?t" .
  have objs: "\<exists>os'. obj_at ?s1 (Ptr q) = Inr os' \<and> sao_n os' = sao_n os \<and> sao_a os' = sao_a os"
    if "obj_at s (Ptr q) = Inr os" for q os
    using that ob pl by (cases "q = p") (simp_all add: obj_at_put_obj)
  show ?thesis
    using cp rel Ptr objs by (simp add: put_obj_def)
qed

lemma obj_at_append:
  "obj_at s (Ptr p) = Inr ob \<Longrightarrow> obj_at (s\<lparr>objs := objs s @ xs\<rparr>) (Ptr p) = Inr ob"
  by (simp add: obj_at_Ptr nth_append)

lemma block_at_append:
  "block_at s (Ptr c) = Inr zs \<Longrightarrow> block_at (s\<lparr>blocks := blocks s @ xs\<rparr>) (Ptr c) = Inr zs"
  by (simp add: block_at_Ptr nth_append)

lemma SAO_copy_props:
  assumes ob: "obj_at t (Ptr qs) = Inr os" and n: "0 \<le> sao_n os" and st: "storage_ok t os"
  shows "\<exists>s2 oq. SAO_copy (Ptr qs) t = Inr (length (objs t), s2) \<and>
           handles s2 = handles t \<and>
           (\<forall>p ob. obj_at t (Ptr p) = Inr ob \<longrightarrow> obj_at s2 (Ptr p) = Inr ob) \<and>
           (\<forall>c zs. block_at t (Ptr c) = Inr zs \<longrightarrow> block_at s2 (Ptr c) = Inr zs) \<and>
           obj_at s2 (Ptr (length (objs t))) = Inr oq \<and> sao_use oq = 1 \<and>
           sao_n oq = sao_n os \<and>
           (\<forall>zs. block_at t (sao_a oq) \<noteq> Inr zs) \<and>
           (if 0 < sao_n os
            then \<exists>xs. block_at t (sao_a os) = Inr xs \<and> nat (sao_n os) \<le> length xs \<and>
                   block_at s2 (sao_a oq) = Inr (take (nat (sao_n os)) xs)
            else True)"
proof (cases "0 < sao_n os")
  case False
  with n have n0: "sao_n os = 0" by simp
  from SAO_copy_empty [OF ob n0] n0 show ?thesis
    by (auto simp: obj_at_update obj_at_Ptr nth_append block_at_def)
next
  case True
  from storage_ok_block [OF st True] obtain b xs where b:
    "sao_a os = Ptr b" "block_at t (Ptr b) = Inr xs" "nat (sao_n os) \<le> length xs"
    by blast
  from SAO_copy_storage [OF ob True b] True b show ?thesis
    by (auto simp: obj_at_update block_at_update obj_at_Ptr block_at_Ptr nth_append)
qed

lemma elements_ptr:
  "handle_at s h = Inr (Ptr p) \<Longrightarrow> obj_at s (Ptr p) = Inr ob \<Longrightarrow>
   elements h s =
     (if sao_n ob \<le> 0 then Inr []
      else and_then (block_at s (sao_a ob)) (\<lambda>xs.
             if nat (sao_n ob) \<le> length xs then Inr (take (nat (sao_n ob)) xs)
             else Inl OutOfBounds))"
  by (simp add: elements_def)

lemma size_ptr:
  "handle_at s h = Inr (Ptr p) \<Longrightarrow> obj_at s (Ptr p) = Inr ob \<Longrightarrow>
   SharedArray_size h s = Inr (sao_n ob)"
  by (simp add: SharedArray_size_def)

lemma view_null:
  "handle_at s h = Inr Null \<Longrightarrow> SharedArray_size h s = Inr 0 \<and> elements h s = Inr []"
  by (simp add: SharedArray_size_def elements_def)

text \<open>The elements a handle reports are what \<open>operator[]\<close> reads.\<close>

lemma elements_index:
  assumes "elements h s = Inr es" "i < length es"
  shows "SharedArray_index h (int i) s = Inr (es ! i)"
  using assms
  by (auto simp: elements_def SharedArray_index_def and_then_def split: sum.splits if_splits)

text \<open>The example heap \<open>two_elements\<close> is what the code builds, up to the trace.\<close>

lemma two_elements_built:
  "and_then (SharedArray_store 0 0 7 (snd (SharedArray_new 2 empty_heap)))
     (SharedArray_store 0 1 8) =
   Inr (two_elements\<lparr>trace := [New 0, Malloc 0 2]\<rparr>)"
  by (simp add: two_elements_def empty_heap_def SharedArray_new_def SAO_new_def malloc_def
      emit_def SharedArray_store_def handle_at_def obj_at_def block_at_def Let_def
      numeral_2_eq_2)

lemmas wf_defs = heap_wf_def handle_ok_def obj_ok_def storage_ok_def separate_def obj_at_def
  block_at_def All_less_Suc

lemmas run_defs = SharedArray_update_def SharedArray_copy_def SharedArray_resize_def
  SharedArray_size_def elements_def handle_at_def obj_at_def block_at_def SAO_release_def
  SAO_subscribe_def SAO_delete_def SAO_copy_def SAO_new_def malloc_def mfree_def emit_def
  put_obj_def put_handle_def copy_elems_def construct_copy_def destruct_def Let_def

text \<open>
  C7. For every \<open>k\<close>, in particular for every \<open>k \<ge> 0\<close>, and in every heap: the handle
  constructed by \<open>SharedArray(k)\<close> over a new buffer reports the length \<open>k\<close>.
\<close>

theorem create_then_size:
  "SharedArray_size (fst (SharedArray_new k s)) (snd (SharedArray_new k s)) = Inr k"
  by (simp add: SharedArray_size_def SharedArray_new_def SAO_new_def malloc_def emit_def
      handle_at_def obj_at_def Let_def split_def)

text \<open>
  C10. Self-assignment \<open>h = h\<close> returns normally and leaves the whole heap as it was: the
  pointer of the handle, the reference count, the length and the elements of its buffer.
  \<open>update\<close> has no such check: \<open>h.update(home, true, h)\<close> on the only handle of a
  buffer deletes the buffer and then uses the dangling pointer.
\<close>

theorem self_assignment_noop:
  "SharedArray_assign h h s = Inr s \<and>
   (handle_at s h = Inr (Ptr p) \<and> obj_at s (Ptr p) = Inr ob \<and> sao_use ob = 1 \<and>
    storage_ok s ob \<longrightarrow> SharedArray_update h True h s = Inl DanglingPointer)"
proof (intro conjI impI)
  show "SharedArray_assign h h s = Inr s" by (simp add: SharedArray_assign_def)
next
  assume A: "handle_at s h = Inr (Ptr p) \<and> obj_at s (Ptr p) = Inr ob \<and> sao_use ob = 1 \<and>
    storage_ok s ob"
  then have h: "handle_at s h = Inr (Ptr p)" and ob: "obj_at s (Ptr p) = Inr ob"
    and u: "sao_use ob = 1" and st: "storage_ok s ob" by simp_all
  from SAO_release_frame [OF ob st] u obtain s1 where s1:
    "SAO_release (Ptr p) s = Inr s1" "handles s1 = handles s"
    "obj_at s1 (Ptr p) = Inl DanglingPointer"
    by auto
  have "handle_at s1 h = Inr (Ptr p)" using h handles_cong [OF s1(2)] by simp
  then show "SharedArray_update h True h s = Inl DanglingPointer"
    using h s1(1,3) by (simp add: SharedArray_update_def Let_def SAO_subscribe_def)
qed

theorem self_assignment_noop_witness:
  "handle_at two_elements 0 = Inr (Ptr 0) \<and>
   obj_at two_elements (Ptr 0) = Inr \<lparr>sao_use = 1, sao_a = Ptr 0, sao_n = 2\<rparr> \<and>
   sao_use \<lparr>sao_use = 1, sao_a = Ptr 0, sao_n = 2\<rparr> = 1 \<and>
   storage_ok two_elements \<lparr>sao_use = 1, sao_a = Ptr 0, sao_n = 2\<rparr> \<and>
   SharedArray_assign 0 0 two_elements = Inr two_elements \<and>
   SharedArray_update 0 True 0 two_elements = Inl DanglingPointer"
proof -
  let ?ob = "\<lparr>sao_use = 1, sao_a = Ptr 0, sao_n = 2\<rparr>"
  have 1: "handle_at two_elements 0 = Inr (Ptr 0)" and 2: "obj_at two_elements (Ptr 0) = Inr ?ob"
    by (simp_all add: two_elements_def run_defs)
  have 3: "sao_use ?ob = 1" by simp
  have 4: "storage_ok two_elements ?ob" by (simp add: two_elements_def wf_defs)
  from self_assignment_noop [of 0 two_elements 0 ?ob] 1 2 3 4 show ?thesis by blast
qed



text \<open>
  C2. \<open>shrink(m)\<close> on a handle whose buffer has \<open>n\<close> elements in storage \<open>b\<close>, for
  \<open>0 \<le> m < n\<close>: the call returns normally, the length becomes \<open>m\<close>, for \<open>m > 0\<close> the
  first \<open>m\<close> elements are copy-constructed into new storage of exactly \<open>m\<close> slots (for
  \<open>m = 0\<close> the pointer becomes \<open>NULL\<close>), and the old storage is freed. The trace
  gains the allocation, the constructions and the \<open>MFree\<close>, and no \<open>Destruct\<close>:
  the destructor of the old elements is not called, as \<open>~SAO\<close> does before it frees.
\<close>

theorem shrink_effect:
  assumes h: "handle_at s h = Inr (Ptr q)" and ob: "obj_at s (Ptr q) = Inr ob"
    and m: "0 \<le> m" "m < sao_n ob"
    and a: "sao_a ob = Ptr b" and xs: "block_at s (Ptr b) = Inr xs"
    and len: "nat (sao_n ob) \<le> length xs"
  shows "SharedArray_shrink h m s =
         Inr (s\<lparr>objs := (objs s)[q := Some (ob\<lparr>sao_n := m,
                    sao_a := (if 0 < m then Ptr (length (blocks s)) else Null)\<rparr>)],
                blocks := (if 0 < m then (blocks s)[b := None] @ [Some (take (nat m) xs)]
                           else (blocks s)[b := None]),
                trace := trace s @
                  (if 0 < m
                   then Malloc (length (blocks s)) (nat m) #
                        map (Construct (length (blocks s))) (rev [0..<nat m])
                   else []) @ [MFree b]\<rparr>)"
proof (cases "0 < m")
  case True
  then have "nat m \<le> length xs" using m len by simp
  from SAO_shrink_storage [OF ob True m(2) a xs this] True h show ?thesis
    by (simp add: SharedArray_shrink_def)
next
  case False
  then have "m \<le> 0" "0 < sao_n ob" using m by simp_all
  from SAO_shrink_to_zero [OF ob this(1) m(2) this(2) a xs] False h show ?thesis
    by (simp add: SharedArray_shrink_def)
qed

theorem shrink_effect_witness:
  "handle_at two_elements 0 = Inr (Ptr 0) \<and>
   obj_at two_elements (Ptr 0) = Inr \<lparr>sao_use = 1, sao_a = Ptr 0, sao_n = 2\<rparr> \<and>
   (0::int) \<le> 1 \<and> 1 < sao_n \<lparr>sao_use = 1, sao_a = Ptr 0, sao_n = 2\<rparr> \<and>
   block_at two_elements (Ptr 0) = Inr [Some 7, Some 8] \<and>
   SharedArray_shrink 0 1 two_elements =
     Inr \<lparr>objs = [Some \<lparr>sao_use = 1, sao_a = Ptr 1, sao_n = 1\<rparr>],
          blocks = [None, Some [Some 7]],
          handles = [Some (Ptr 0)],
          trace = [Malloc 1 1, Construct 1 0, MFree 0]\<rparr>"
proof -
  let ?ob = "\<lparr>sao_use = 1, sao_a = Ptr 0, sao_n = 2\<rparr>"
  have 1: "handle_at two_elements 0 = Inr (Ptr 0)"
    by (simp add: two_elements_def handle_at_def)
  have 2: "obj_at two_elements (Ptr 0) = Inr ?ob"
    by (simp add: two_elements_def obj_at_def)
  have 3: "(0::int) \<le> 1" and 4: "1 < sao_n ?ob" and 5: "sao_a ?ob = Ptr 0" by simp_all
  have 6: "block_at two_elements (Ptr 0) = Inr [Some 7, Some 8]"
    by (simp add: two_elements_def block_at_def)
  have 7: "nat (sao_n ?ob) \<le> length [Some (7::nat), Some 8]" by simp
  from shrink_effect [OF 1 2 3 4 5 6 7] 1 2 3 4 6 show ?thesis
    by (simp add: two_elements_def)
qed

text \<open>
  C3, amended. \<open>ensure(i)\<close> on a handle whose buffer has \<open>n \<ge> 0\<close> elements \<open>es\<close>, with
  \<open>2*n\<close> representable as \<open>int\<close> and with the pointer \<open>a\<close> equal to \<open>NULL\<close> when
  \<open>n = 0\<close>, as the constructor and \<open>shrink\<close> leave it. If \<open>i \<ge> n\<close>, the call returns
  normally, the length is \<open>max(2*n, i)\<close>, the storage is new, has that many slots, starts
  with \<open>es\<close> and is raw after them, the \<open>n\<close> elements have been constructed into it,
  and the old storage, if there was any, is freed. If \<open>i < n\<close>, the heap is as it was.
\<close>

theorem ensure_grows:
  assumes h: "handle_at s h = Inr (Ptr q)" and ob: "obj_at s (Ptr q) = Inr ob"
    and n: "0 \<le> sao_n ob" and ov: "2 * sao_n ob \<le> INT_MAX"
    and es: "elements h s = Inr es"
    and nul: "sao_n ob = 0 \<longrightarrow> sao_a ob = Null"
  shows "(sao_n ob \<le> i \<longrightarrow>
           (\<exists>s'. SharedArray_ensure h i s = Inr s' \<and>
              SharedArray_size h s' = Inr (max (2 * sao_n ob) i) \<and>
              obj_at s' (Ptr q) =
                Inr (ob\<lparr>sao_n := max (2 * sao_n ob) i, sao_a := Ptr (length (blocks s))\<rparr>) \<and>
              block_at s (Ptr (length (blocks s))) = Inl DanglingPointer \<and>
              block_at s' (Ptr (length (blocks s))) =
                Inr (es @ replicate (nat (max (2 * sao_n ob) i) - nat (sao_n ob)) None) \<and>
              length es = nat (sao_n ob) \<and>
              (\<forall>zs. block_at s' (sao_a ob) \<noteq> Inr zs) \<and>
              trace s' = trace s @ Malloc (length (blocks s)) (nat (max (2 * sao_n ob) i)) #
                map (Construct (length (blocks s))) (rev [0..<nat (sao_n ob)]) @
                (case sao_a ob of Ptr b \<Rightarrow> [MFree b] | Null \<Rightarrow> []))) \<and>
         (i < sao_n ob \<longrightarrow> SharedArray_ensure h i s = Inr s)"
proof (intro conjI impI)
  assume "i < sao_n ob"
  with h ob show "SharedArray_ensure h i s = Inr s"
    by (simp add: SharedArray_ensure_def SAO_ensure_noop)
next
  assume i: "sao_n ob \<le> i"
  define m where "m = max (2 * sao_n ob) i"
  have fresh: "block_at s (Ptr (length (blocks s))) = Inl DanglingPointer"
    by (simp add: block_at_def)
  show "\<exists>s'. SharedArray_ensure h i s = Inr s' \<and>
              SharedArray_size h s' = Inr (max (2 * sao_n ob) i) \<and>
              obj_at s' (Ptr q) =
                Inr (ob\<lparr>sao_n := max (2 * sao_n ob) i, sao_a := Ptr (length (blocks s))\<rparr>) \<and>
              block_at s (Ptr (length (blocks s))) = Inl DanglingPointer \<and>
              block_at s' (Ptr (length (blocks s))) =
                Inr (es @ replicate (nat (max (2 * sao_n ob) i) - nat (sao_n ob)) None) \<and>
              length es = nat (sao_n ob) \<and>
              (\<forall>zs. block_at s' (sao_a ob) \<noteq> Inr zs) \<and>
              trace s' = trace s @ Malloc (length (blocks s)) (nat (max (2 * sao_n ob) i)) #
                map (Construct (length (blocks s))) (rev [0..<nat (sao_n ob)]) @
                (case sao_a ob of Ptr b \<Rightarrow> [MFree b] | Null \<Rightarrow> [])"
  proof (cases "0 < sao_n ob")
    case False
    with n have n0: "sao_n ob = 0" by simp
    with i have i0: "0 \<le> i" by simp
    from n0 nul have a0: "sao_a ob = Null" by simp
    from es h ob n0 have "es = []" by (simp add: elements_Inr)
    moreover from ob have "q < length (objs s)" by (simp add: obj_at_Ptr)
    ultimately show ?thesis
      using SAO_ensure_grow_empty [OF ob n0 i0] h n0 i0 a0 fresh
      by (simp add: SharedArray_ensure_def SharedArray_size_def obj_at_update block_at_update
          nth_append block_at_def)
  next
    case True
    with es h ob obtain xs where xs: "block_at s (sao_a ob) = Inr xs"
      "nat (sao_n ob) \<le> length xs" "es = take (nat (sao_n ob)) xs"
      by (auto simp: elements_Inr)
    then obtain b where b: "sao_a ob = Ptr b"
      by (cases "sao_a ob") (simp_all add: block_at_def)
    from xs b have bl: "b < length (blocks s)" by (simp add: block_at_Ptr)
    from ob have ql: "q < length (objs s)" by (simp add: obj_at_Ptr)
    have xs': "block_at s (Ptr b) = Inr xs" using xs b by simp
    from SAO_ensure_grow_storage [OF ob True i ov m_def b xs' xs(2)] h b bl ql xs(2,3) True fresh
    show ?thesis
      by (simp add: SharedArray_ensure_def SharedArray_size_def obj_at_update block_at_update
          nth_append m_def)
  qed
qed

theorem ensure_grows_witness:
  "handle_at two_elements 0 = Inr (Ptr 0) \<and>
   obj_at two_elements (Ptr 0) = Inr \<lparr>sao_use = 1, sao_a = Ptr 0, sao_n = 2\<rparr> \<and>
   0 \<le> sao_n \<lparr>sao_use = 1, sao_a = Ptr 0, sao_n = 2\<rparr> \<and>
   2 * sao_n \<lparr>sao_use = 1, sao_a = Ptr 0, sao_n = 2\<rparr> \<le> INT_MAX \<and>
   elements 0 two_elements = Inr [Some 7, Some 8] \<and>
   sao_n \<lparr>sao_use = 1, sao_a = Ptr 0, sao_n = 2\<rparr> \<noteq> 0 \<and>
   (\<exists>s'. SharedArray_ensure 0 2 two_elements = Inr s' \<and> SharedArray_size 0 s' = Inr 4 \<and>
      block_at s' (Ptr 1) = Inr [Some 7, Some 8, None, None] \<and>
      block_at s' (Ptr 0) = Inl DanglingPointer \<and>
      trace s' = [Malloc 1 4, Construct 1 1, Construct 1 0, MFree 0]) \<and>
   SharedArray_ensure 0 1 two_elements = Inr two_elements \<and>
   handle_at zero_length 0 = Inr (Ptr 0) \<and>
   obj_at zero_length (Ptr 0) = Inr \<lparr>sao_use = 1, sao_a = Null, sao_n = 0\<rparr> \<and>
   elements 0 zero_length = Inr [] \<and>
   sao_a \<lparr>sao_use = 1, sao_a = Null, sao_n = 0\<rparr> = Null \<and>
   (\<exists>s'. SharedArray_ensure 0 3 zero_length = Inr s' \<and> SharedArray_size 0 s' = Inr 3 \<and>
      block_at s' (Ptr 0) = Inr [None, None, None] \<and>
      trace s' = [New 0, Malloc 0 3])"
proof -
  let ?ob = "\<lparr>sao_use = 1, sao_a = Ptr 0, sao_n = 2\<rparr>"
  let ?oz = "\<lparr>sao_use = 1, sao_a = Null, sao_n = 0\<rparr>"
  have 1: "handle_at two_elements 0 = Inr (Ptr 0)"
    by (simp add: two_elements_def handle_at_def)
  have 2: "obj_at two_elements (Ptr 0) = Inr ?ob"
    by (simp add: two_elements_def obj_at_def)
  have 3: "0 \<le> sao_n ?ob" and 4: "2 * sao_n ?ob \<le> INT_MAX" by (simp_all add: INT_MAX_def)
  have 5: "elements 0 two_elements = Inr [Some 7, Some 8]"
    by (simp add: two_elements_def elements_def handle_at_def obj_at_def block_at_def)
  have 6: "sao_n ?ob \<noteq> 0" by simp
  then have 7: "sao_n ?ob = 0 \<longrightarrow> sao_a ?ob = Null" by simp
  have l: "length (blocks two_elements) = 1" "trace two_elements = []"
    by (simp_all add: two_elements_def)
  from ensure_grows [OF 1 2 3 4 5 7, of 2] l
  have r1: "\<exists>s'. SharedArray_ensure 0 2 two_elements = Inr s' \<and> SharedArray_size 0 s' = Inr 4 \<and>
      block_at s' (Ptr 1) = Inr [Some 7, Some 8, None, None] \<and>
      block_at s' (Ptr 0) = Inl DanglingPointer \<and>
      trace s' = [Malloc 1 4, Construct 1 1, Construct 1 0, MFree 0]"
    by (auto simp: numeral_2_eq_2 block_at_def split: option.splits if_splits)
  from ensure_grows [OF 1 2 3 4 5 7, of 1]
  have r2: "SharedArray_ensure 0 1 two_elements = Inr two_elements" by simp
  have z1: "handle_at zero_length 0 = Inr (Ptr 0)"
    by (simp add: zero_length_def handle_at_def)
  have z2: "obj_at zero_length (Ptr 0) = Inr ?oz"
    by (simp add: zero_length_def obj_at_def)
  have z3: "0 \<le> sao_n ?oz" and z4: "2 * sao_n ?oz \<le> INT_MAX" by (simp_all add: INT_MAX_def)
  have z5: "elements 0 zero_length = Inr []"
    by (simp add: zero_length_def elements_def handle_at_def obj_at_def)
  have z6: "sao_a ?oz = Null" by simp
  then have z7: "sao_n ?oz = 0 \<longrightarrow> sao_a ?oz = Null" by simp
  have lz: "length (blocks zero_length) = 0" "trace zero_length = [New 0]"
    by (simp_all add: zero_length_def)
  from ensure_grows [OF z1 z2 z3 z4 z5 z7, of 3] lz
  have r3: "\<exists>s'. SharedArray_ensure 0 3 zero_length = Inr s' \<and> SharedArray_size 0 s' = Inr 3 \<and>
      block_at s' (Ptr 0) = Inr [None, None, None] \<and> trace s' = [New 0, Malloc 0 3]"
    by (auto simp: numeral_3_eq_3)
  from 1 2 3 4 5 6 r1 r2 z1 z2 z5 z6 r3 show ?thesis by blast
qed

text \<open>
  The claim as stated fails at two inputs. For a buffer of \<open>2^30\<close> elements, \<open>2*n\<close> is
  not an \<open>int\<close>, and neither is the length \<open>max(2*n, i)\<close>. After
  \<open>SharedArray<T> x(0); x.ensure(0)\<close> the buffer has length 0 and holds a block of no
  slots; \<open>x.ensure(1)\<close> then allocates new storage and leaves that block allocated: the
  heap still has it and the trace has no \<open>MFree\<close>, because the code frees only under
  \<open>n > 0\<close>.
\<close>

theorem ensure_counterexample:
  "SharedArray_size 0 huge = Inr (2 ^ 30) \<and>
   elements 0 huge = Inr (replicate (2 ^ 30) None) \<and>
   SharedArray_ensure 0 (2 ^ 30) huge = Inl SignedOverflow \<and>
   SharedArray_ensure 0 0 (snd (SharedArray_new 0 empty_heap)) = Inr after_ensure_zero \<and>
   heap_wf after_ensure_zero \<and>
   SharedArray_size 0 after_ensure_zero = Inr 0 \<and>
   block_at after_ensure_zero (Ptr 0) = Inr [] \<and>
   SharedArray_ensure 0 1 after_ensure_zero =
     Inr \<lparr>objs = [Some \<lparr>sao_use = 1, sao_a = Ptr 1, sao_n = 1\<rparr>],
          blocks = [Some [], Some [None]],
          handles = [Some (Ptr 0)],
          trace = [New 0, Malloc 0 0, Malloc 1 1]\<rparr>"
proof -
  have "SharedArray_size 0 huge = Inr (2 ^ 30) \<and>
   elements 0 huge = Inr (replicate (2 ^ 30) None) \<and>
   SharedArray_ensure 0 (2 ^ 30) huge = Inl SignedOverflow"
    by (simp add: huge_def SharedArray_size_def elements_def SharedArray_ensure_def SAO_ensure_def
        handle_at_def obj_at_def block_at_def INT_MAX_def INT_MIN_def)
  moreover have "SharedArray_ensure 0 0 (snd (SharedArray_new 0 empty_heap)) = Inr after_ensure_zero"
    by (simp add: after_ensure_zero_def empty_heap_def SharedArray_new_def SAO_new_def
        SharedArray_ensure_def SAO_ensure_def INT_MAX_def INT_MIN_def malloc_def copy_elems_def
        emit_def put_obj_def handle_at_def obj_at_def Let_def)
  moreover have "heap_wf after_ensure_zero"
    by (simp add: after_ensure_zero_def wf_defs)
  moreover have "SharedArray_size 0 after_ensure_zero = Inr 0"
    "block_at after_ensure_zero (Ptr 0) = Inr []"
    by (simp_all add: after_ensure_zero_def SharedArray_size_def handle_at_def obj_at_def
        block_at_def)
  moreover have "SharedArray_ensure 0 1 after_ensure_zero =
     Inr \<lparr>objs = [Some \<lparr>sao_use = 1, sao_a = Ptr 1, sao_n = 1\<rparr>],
          blocks = [Some [], Some [None]],
          handles = [Some (Ptr 0)],
          trace = [New 0, Malloc 0 0, Malloc 1 1]\<rparr>"
    by (simp add: after_ensure_zero_def SharedArray_ensure_def SAO_ensure_def INT_MAX_def
        INT_MIN_def malloc_def copy_elems_def emit_def put_obj_def handle_at_def obj_at_def
        Let_def)
  ultimately show ?thesis by simp
qed

text \<open>
  C1, amended. In a well-formed heap, \<open>h.update(home, true, a)\<close>:
  \<^item> if \<open>a\<close> holds the buffer \<open>pa\<close> and \<open>h\<close> does not hold a stake in it, the call
    returns normally, both handles refer to \<open>pa\<close> and report its length and the elements
    that \<open>a\<close> reported before, and the reference count of \<open>pa\<close> is its old value plus
    one (in \<open>unsigned int\<close>);
  \<^item> if \<open>h\<close> already holds a stake in \<open>pa\<close> and the count is not 1, the heap is as it
    was: the count is unchanged;
  \<^item> if \<open>a\<close> is empty, both handles are empty afterwards and report the length 0.
\<close>

theorem update_share:
  assumes wf: "heap_wf s" and h: "handle_at s h = Inr ph"
  shows "(handle_at s a = Inr (Ptr pa) \<and> obj_at s (Ptr pa) = Inr ob \<and> ph \<noteq> Ptr pa \<longrightarrow>
           (\<exists>s'. SharedArray_update h True a s = Inr s' \<and>
              handle_at s' h = Inr (Ptr pa) \<and> handle_at s' a = Inr (Ptr pa) \<and>
              obj_at s' (Ptr pa) = Inr (ob\<lparr>sao_use := sao_use ob + 1\<rparr>) \<and>
              SharedArray_size h s' = Inr (sao_n ob) \<and> SharedArray_size a s' = Inr (sao_n ob) \<and>
              elements h s' = elements a s \<and> elements a s' = elements a s)) \<and>
         (handle_at s a = Inr (Ptr pa) \<and> obj_at s (Ptr pa) = Inr ob \<and> ph = Ptr pa \<and>
            sao_use ob \<noteq> 1 \<longrightarrow>
            SharedArray_update h True a s = Inr s) \<and>
         (handle_at s a = Inr Null \<longrightarrow>
           (\<exists>s'. SharedArray_update h True a s = Inr s' \<and>
              handle_at s' h = Inr Null \<and> handle_at s' a = Inr Null \<and>
              SharedArray_size h s' = Inr 0 \<and> SharedArray_size a s' = Inr 0 \<and>
              elements h s' = Inr [] \<and> elements a s' = Inr []))"
proof (intro conjI impI)
  from h have hl: "h < length (handles s)" by (simp add: handle_at_Inr)
  from release_or_skip [OF wf h] obtain s1 where s1:
    "(if ph \<noteq> Null then SAO_release ph s else Inr s) = Inr s1" "handles s1 = handles s"
    "\<forall>p. ph \<noteq> Ptr p \<longrightarrow> obj_at s1 (Ptr p) = obj_at s (Ptr p)"
    "\<forall>p ob. ph \<noteq> Ptr p \<and> obj_at s (Ptr p) = Inr ob \<longrightarrow>
       block_at s1 (sao_a ob) = block_at s (sao_a ob)"
    by blast
  have hl1: "h < length (handles s1)" using hl s1(2) by simp
  have h1: "handle_at s1 g = handle_at s g" for g
    using handles_cong [OF s1(2)] by simp
  {
    assume A: "handle_at s a = Inr (Ptr pa) \<and> obj_at s (Ptr pa) = Inr ob \<and> ph \<noteq> Ptr pa"
    then have a: "handle_at s a = Inr (Ptr pa)" and ob: "obj_at s (Ptr pa) = Inr ob"
      and ne: "ph \<noteq> Ptr pa" by simp_all
    let ?s2 = "put_handle h (Ptr pa) s1"
    let ?s' = "put_obj pa (ob\<lparr>sao_use := sao_use ob + 1\<rparr>) ?s2"
    have ob1: "obj_at s1 (Ptr pa) = Inr ob" using s1(3) ne ob by simp
    then have pl: "pa < length (objs ?s2)" by (simp add: obj_at_Ptr put_handle_def)
    have bl: "block_at s1 (sao_a ob) = block_at s (sao_a ob)" using s1(4) ne ob by blast
    have run: "SharedArray_update h True a s = Inr ?s'"
      using h s1(1) a ob1 by (simp add: SharedArray_update_def h1 SAO_subscribe_ok Let_def)
    have hh: "handle_at ?s' h = Inr (Ptr pa)" and ha: "handle_at ?s' a = Inr (Ptr pa)"
      using a by (simp_all add: handle_at_put_handle [OF hl1] h1)
    have o': "obj_at ?s' (Ptr pa) = Inr (ob\<lparr>sao_use := sao_use ob + 1\<rparr>)"
      using pl by (simp add: obj_at_put_obj)
    have ea: "elements a ?s' = elements a s"
      by (rule elements_eqI [OF ha a o' ob]) (simp_all add: bl)
    have eh: "elements h ?s' = elements a ?s'"
      by (rule elements_same_ptr) (simp only: hh ha)
    show "\<exists>s'. SharedArray_update h True a s = Inr s' \<and>
              handle_at s' h = Inr (Ptr pa) \<and> handle_at s' a = Inr (Ptr pa) \<and>
              obj_at s' (Ptr pa) = Inr (ob\<lparr>sao_use := sao_use ob + 1\<rparr>) \<and>
              SharedArray_size h s' = Inr (sao_n ob) \<and> SharedArray_size a s' = Inr (sao_n ob) \<and>
              elements h s' = elements a s \<and> elements a s' = elements a s"
      using run hh ha o' ea eh by (simp add: SharedArray_size_def)
  }
  {
    assume B: "handle_at s a = Inr Null"
    let ?s' = "put_handle h Null s1"
    have run: "SharedArray_update h True a s = Inr ?s'"
      using h s1(1) B by (simp add: SharedArray_update_def h1 Let_def)
    have hh: "handle_at ?s' h = Inr Null" and ha: "handle_at ?s' a = Inr Null"
      using B by (simp_all add: handle_at_put_handle [OF hl1] h1)
    show "\<exists>s'. SharedArray_update h True a s = Inr s' \<and>
              handle_at s' h = Inr Null \<and> handle_at s' a = Inr Null \<and>
              SharedArray_size h s' = Inr 0 \<and> SharedArray_size a s' = Inr 0 \<and>
              elements h s' = Inr [] \<and> elements a s' = Inr []"
      using run hh ha by (simp add: SharedArray_size_def elements_def)
  }
next
  assume C: "handle_at s a = Inr (Ptr pa) \<and> obj_at s (Ptr pa) = Inr ob \<and> ph = Ptr pa \<and>
            sao_use ob \<noteq> 1"
  then have a: "handle_at s a = Inr (Ptr pa)" and ob: "obj_at s (Ptr pa) = Inr ob"
    and eq: "ph = Ptr pa" and u: "sao_use ob \<noteq> 1" by simp_all
  let ?s1 = "put_obj pa (ob\<lparr>sao_use := sao_use ob - 1\<rparr>) s"
  from ob have pl: "pa < length (objs s)" by (simp add: obj_at_Ptr)
  have rel: "SAO_release (Ptr pa) s = Inr ?s1" by (rule SAO_release_keep [OF ob u])
  have ob1: "obj_at ?s1 (Ptr pa) = Inr (ob\<lparr>sao_use := sao_use ob - 1\<rparr>)"
    using pl by (simp add: obj_at_put_obj)
  have "handle_at ?s1 h = Inr (Ptr pa)" using h eq by simp
  then have same: "put_handle h (Ptr pa) ?s1 = ?s1" by (rule put_handle_same)
  show "SharedArray_update h True a s = Inr s"
    using h eq rel a ob1
    by (simp add: SharedArray_update_def Let_def same SAO_subscribe_ok put_obj_same [OF ob])
qed

theorem update_share_witness:
  "heap_wf two_buffers \<and> handle_at two_buffers 1 = Inr (Ptr 1) \<and>
   handle_at two_buffers 0 = Inr (Ptr 0) \<and>
   obj_at two_buffers (Ptr 0) = Inr \<lparr>sao_use = 1, sao_a = Ptr 0, sao_n = 2\<rparr> \<and>
   Ptr 1 \<noteq> Ptr 0 \<and>
   (\<exists>s'. SharedArray_update 1 True 0 two_buffers = Inr s' \<and>
      obj_at s' (Ptr 0) = Inr \<lparr>sao_use = 2, sao_a = Ptr 0, sao_n = 2\<rparr> \<and>
      SharedArray_size 1 s' = Inr 2 \<and> SharedArray_size 0 s' = Inr 2 \<and>
      elements 1 s' = Inr [Some 7, Some 8] \<and> elements 0 s' = Inr [Some 7, Some 8]) \<and>
   heap_wf shared_pair \<and> handle_at shared_pair 1 = Inr (Ptr 0) \<and>
   handle_at shared_pair 0 = Inr (Ptr 0) \<and>
   obj_at shared_pair (Ptr 0) = Inr \<lparr>sao_use = 2, sao_a = Ptr 0, sao_n = 2\<rparr> \<and>
   sao_use \<lparr>sao_use = 2, sao_a = Ptr 0, sao_n = 2\<rparr> \<noteq> 1 \<and>
   SharedArray_update 1 True 0 shared_pair = Inr shared_pair \<and>
   heap_wf with_empty \<and> handle_at with_empty 0 = Inr (Ptr 0) \<and>
   handle_at with_empty 1 = Inr Null \<and>
   (\<exists>s'. SharedArray_update 0 True 1 with_empty = Inr s' \<and>
      SharedArray_size 0 s' = Inr 0 \<and> SharedArray_size 1 s' = Inr 0)"
proof -
  let ?o1 = "\<lparr>sao_use = 1, sao_a = Ptr 0, sao_n = 2\<rparr>"
  let ?o2 = "\<lparr>sao_use = 2, sao_a = Ptr 0, sao_n = 2\<rparr>"
  have w1: "heap_wf two_buffers" by (simp add: two_buffers_def wf_defs)
  have h1: "handle_at two_buffers 1 = Inr (Ptr 1)" and a1: "handle_at two_buffers 0 = Inr (Ptr 0)"
    and o1: "obj_at two_buffers (Ptr 0) = Inr ?o1"
    and e1: "elements 0 two_buffers = Inr [Some 7, Some 8]"
    by (simp_all add: two_buffers_def run_defs)
  have n1: "Ptr 1 \<noteq> Ptr 0" by simp
  from update_share [OF w1 h1, of 0 0 ?o1] a1 o1 n1 e1
  have r1: "\<exists>s'. SharedArray_update 1 True 0 two_buffers = Inr s' \<and>
      obj_at s' (Ptr 0) = Inr ?o2 \<and>
      SharedArray_size 1 s' = Inr 2 \<and> SharedArray_size 0 s' = Inr 2 \<and>
      elements 1 s' = Inr [Some 7, Some 8] \<and> elements 0 s' = Inr [Some 7, Some 8]"
    by auto
  have w2: "heap_wf shared_pair" by (simp add: shared_pair_def wf_defs)
  have h2: "handle_at shared_pair 1 = Inr (Ptr 0)" and a2: "handle_at shared_pair 0 = Inr (Ptr 0)"
    and o2: "obj_at shared_pair (Ptr 0) = Inr ?o2"
    by (simp_all add: shared_pair_def run_defs)
  have u2: "sao_use ?o2 \<noteq> 1" by simp
  from update_share [OF w2 h2, of 0 0 ?o2] a2 o2 u2
  have r2: "SharedArray_update 1 True 0 shared_pair = Inr shared_pair" by blast
  have w3: "heap_wf with_empty" by (simp add: with_empty_def wf_defs)
  have h3: "handle_at with_empty 0 = Inr (Ptr 0)" and a3: "handle_at with_empty 1 = Inr Null"
    by (simp_all add: with_empty_def run_defs)
  from update_share [OF w3 h3, of 1] a3
  have r3: "\<exists>s'. SharedArray_update 0 True 1 with_empty = Inr s' \<and>
      SharedArray_size 0 s' = Inr 0 \<and> SharedArray_size 1 s' = Inr 0"
    by blast
  from w1 h1 a1 o1 n1 r1 w2 h2 a2 o2 u2 r2 w3 h3 a3 r3 show ?thesis by blast
qed

text \<open>
  The claim as stated fails when \<open>h\<close> is a copy of \<open>a\<close>: the count of the shared buffer
  is 2 before \<open>h.update(home, true, a)\<close> and 2 after it.
\<close>

theorem update_share_counterexample:
  "heap_wf shared_pair \<and>
   handle_at shared_pair 1 = Inr (Ptr 0) \<and> handle_at shared_pair 0 = Inr (Ptr 0) \<and>
   obj_at shared_pair (Ptr 0) = Inr \<lparr>sao_use = 2, sao_a = Ptr 0, sao_n = 2\<rparr> \<and>
   SharedArray_update 1 True 0 shared_pair = Inr shared_pair"
  by (simp add: shared_pair_def wf_defs) (simp add: run_defs)

text \<open>
  C5, amended. In a well-formed heap, copying the handle \<open>a\<close> returns a new handle
  \<open>b\<close>. Let \<open>x\<close> be one of the two and \<open>y\<close> the other, and \<open>src\<close> any handle. Then
  \<open>x.update(home, false, src)\<close> returns normally, \<open>y\<close> still refers to what \<open>a\<close>
  referred to and reports the length and the elements \<open>a\<close> reported before the copy. If
  \<open>src\<close> is empty, \<open>x\<close> is empty afterwards. If \<open>src\<close> holds a buffer, \<open>x\<close> holds a
  buffer that did not exist before, with reference count 1, storage that did not exist
  before, and the length and the elements of \<open>src\<close>.
\<close>

theorem diverge_keeps_other:
  assumes wf: "heap_wf s" and a: "handle_at s a = Inr pa"
  shows "\<exists>b s1. SharedArray_copy a s = Inr (b, s1) \<and>
           (\<forall>x y src ps.
              ((x = a \<and> y = b) \<or> (x = b \<and> y = a)) \<and> handle_at s1 src = Inr ps \<longrightarrow>
              (\<exists>s2. SharedArray_update x False src s1 = Inr s2 \<and>
                 handle_at s2 y = Inr pa \<and>
                 SharedArray_size y s2 = SharedArray_size a s \<and>
                 elements y s2 = elements a s \<and>
                 (ps = Null \<longrightarrow> handle_at s2 x = Inr Null) \<and>
                 (ps \<noteq> Null \<longrightarrow>
                    (\<exists>q oq. handle_at s2 x = Inr (Ptr q) \<and>
                       obj_at s1 (Ptr q) = Inl DanglingPointer \<and>
                       obj_at s2 (Ptr q) = Inr oq \<and> sao_use oq = 1 \<and>
                       (\<forall>zs. block_at s1 (sao_a oq) \<noteq> Inr zs) \<and>
                       SharedArray_size x s2 = SharedArray_size src s1 \<and>
                       elements x s2 = elements src s1))))"
proof -
  let ?b = "length (handles s)"
  let ?t = "s\<lparr>handles := handles s @ [Some pa]\<rparr>"
  from SharedArray_copy_result [OF wf a] obtain s1 where s1:
    "SharedArray_copy a s = Inr (?b, s1)" "handles s1 = handles s @ [Some pa]"
    "length (objs s1) = length (objs s)" "blocks s1 = blocks s"
    "\<forall>q os. obj_at s (Ptr q) = Inr os \<longrightarrow>
       (\<exists>os'. obj_at s1 (Ptr q) = Inr os' \<and> sao_n os' = sao_n os \<and> sao_a os' = sao_a os)"
    "(if pa \<noteq> Null then SAO_release pa s1 else Inr s1) = Inr ?t"
    by blast
  from a have al: "a < ?b" by (simp add: handle_at_Inr)
  have ht: "handle_at ?t g = handle_at s1 g" for g
    by (rule handles_cong) (simp add: s1(2))
  have ha1: "handle_at s1 a = Inr pa" and hb1: "handle_at s1 ?b = Inr pa"
    using a al by (simp_all add: handle_at_Inr s1(2) nth_append)
  have bt: "block_at ?t p = block_at s p" for p by simp
  have b1: "block_at s1 p = block_at s p" for p by (rule block_at_cong [OF s1(4)])
  have main: "\<exists>s2. SharedArray_update x False src s1 = Inr s2 \<and>
                 handle_at s2 y = Inr pa \<and>
                 SharedArray_size y s2 = SharedArray_size a s \<and>
                 elements y s2 = elements a s \<and>
                 (ps = Null \<longrightarrow> handle_at s2 x = Inr Null) \<and>
                 (ps \<noteq> Null \<longrightarrow>
                    (\<exists>q oq. handle_at s2 x = Inr (Ptr q) \<and>
                       obj_at s1 (Ptr q) = Inl DanglingPointer \<and>
                       obj_at s2 (Ptr q) = Inr oq \<and> sao_use oq = 1 \<and>
                       (\<forall>zs. block_at s1 (sao_a oq) \<noteq> Inr zs) \<and>
                       SharedArray_size x s2 = SharedArray_size src s1 \<and>
                       elements x s2 = elements src s1))"
    if xy: "(x = a \<and> y = ?b) \<or> (x = ?b \<and> y = a)" and src: "handle_at s1 src = Inr ps"
    for x y src ps
  proof -
    from xy al have ne: "y \<noteq> x" and xl: "x < length (handles ?t)" by auto
    from xy ha1 hb1 have hx: "handle_at s1 x = Inr pa" and hy: "handle_at s1 y = Inr pa"
      by auto
    have run: "SharedArray_update x False src s1 =
      (if ps = Null then Inr (put_handle x Null ?t)
       else and_then (SAO_copy ps ?t) (\<lambda>(q, s2). Inr (put_handle x (Ptr q) s2)))"
      using hx s1(6) src by (simp add: SharedArray_update_def ht)
    \<comment> \<open>what the other handle sees in a heap that extends \<open>?t\<close>\<close>
    have other: "handle_at s2 y = Inr pa \<and> SharedArray_size y s2 = SharedArray_size a s \<and>
                 elements y s2 = elements a s"
      if hs: "handle_at s2 y = handle_at ?t y"
        and os: "\<And>p ob. obj_at s (Ptr p) = Inr ob \<Longrightarrow> obj_at s2 (Ptr p) = Inr ob"
        and bs: "\<And>c zs. block_at s (Ptr c) = Inr zs \<Longrightarrow> block_at s2 (Ptr c) = Inr zs"
      for s2 :: "'a heap"
    proof (cases pa)
      case Null
      have "handle_at s2 y = Inr pa" using hs hy by (simp add: ht)
      with a Null show ?thesis by (simp add: view_null)
    next
      case (Ptr p)
      from wf a Ptr obtain ob where ob: "obj_at s (Ptr p) = Inr ob"
        using wf_handle by blast
      have "handle_at s2 y = Inr pa" using hs hy by (simp add: ht)
      then have y2: "handle_at s2 y = Inr (Ptr p)" using Ptr by simp
      have a0: "handle_at s a = Inr (Ptr p)" using a Ptr by simp
      have "block_at s2 (sao_a ob) = block_at s (sao_a ob)" if "0 < sao_n ob"
      proof -
        from storage_ok_block [OF wf_obj(3) [OF wf ob] that] obtain c xs where
          "sao_a ob = Ptr c" "block_at s (Ptr c) = Inr xs" by blast
        then show ?thesis using bs by simp
      qed
      then have "elements y s2 = elements a s"
        by (simp add: elements_ptr [OF y2 os [OF ob]] elements_ptr [OF a0 ob] cong: if_cong)
      then show ?thesis
        using y2 Ptr by (simp add: size_ptr [OF y2 os [OF ob]] size_ptr [OF a0 ob])
    qed
    show ?thesis
    proof (cases ps)
      case Null
      let ?s2 = "put_handle x Null ?t"
      have "handle_at ?s2 y = handle_at ?t y"
        using ne by (simp add: handle_at_put_handle [OF xl])
      from other [OF this] have "handle_at ?s2 y = Inr pa \<and>
          SharedArray_size y ?s2 = SharedArray_size a s \<and> elements y ?s2 = elements a s"
        by simp
      moreover have "handle_at ?s2 x = Inr Null"
        by (simp add: handle_at_put_handle [OF xl])
      ultimately show ?thesis using run Null by simp
    next
      case (Ptr qs)
      have "\<exists>os. obj_at s (Ptr qs) = Inr os"
      proof (cases "src < ?b")
        case True
        with src Ptr have "handle_at s src = Inr (Ptr qs)"
          by (simp add: handle_at_Inr s1(2) nth_append)
        with wf show ?thesis by (rule wf_handle)
      next
        case False
        with src Ptr have "pa = Ptr qs"
          by (auto simp: handle_at_Inr s1(2) nth_append less_Suc_eq)
        with wf a show ?thesis using wf_handle by blast
      qed
      then obtain os where os: "obj_at s (Ptr qs) = Inr os" by blast
      then have ost: "obj_at ?t (Ptr qs) = Inr os" by simp
      have stt: "storage_ok ?t os"
        using wf_obj(3) [OF wf os] storage_ok_cong [of ?t s os os] by simp
      from SAO_copy_props [OF ost wf_obj(2) [OF wf os] stt] obtain s2 oq where s2:
        "SAO_copy (Ptr qs) ?t = Inr (length (objs ?t), s2)" "handles s2 = handles ?t"
        "\<forall>p ob. obj_at ?t (Ptr p) = Inr ob \<longrightarrow> obj_at s2 (Ptr p) = Inr ob"
        "\<forall>c zs. block_at ?t (Ptr c) = Inr zs \<longrightarrow> block_at s2 (Ptr c) = Inr zs"
        "obj_at s2 (Ptr (length (objs ?t))) = Inr oq" "sao_use oq = 1" "sao_n oq = sao_n os"
        "\<forall>zs. block_at ?t (sao_a oq) \<noteq> Inr zs"
        "if 0 < sao_n os
         then \<exists>xs. block_at ?t (sao_a os) = Inr xs \<and> nat (sao_n os) \<le> length xs \<and>
                block_at s2 (sao_a oq) = Inr (take (nat (sao_n os)) xs)
         else True"
        by blast
      let ?q = "length (objs s)"
      let ?s3 = "put_handle x (Ptr ?q) s2"
      have xl2: "x < length (handles s2)" using xl s2(2) by simp
      have run': "SharedArray_update x False src s1 = Inr ?s3"
        using run Ptr s2(1) by simp
      have "handle_at ?s3 y = handle_at ?t y"
        using ne handles_cong [OF s2(2)] by (simp add: handle_at_put_handle [OF xl2])
      from other [OF this] s2(3,4) have oth: "handle_at ?s3 y = Inr pa \<and>
          SharedArray_size y ?s3 = SharedArray_size a s \<and> elements y ?s3 = elements a s"
        by simp
      have x3: "handle_at ?s3 x = Inr (Ptr ?q)"
        by (simp add: handle_at_put_handle [OF xl2])
      have fresh: "obj_at s1 (Ptr ?q) = Inl DanglingPointer"
        by (simp add: obj_at_def s1(3))
      have oq3: "obj_at ?s3 (Ptr ?q) = Inr oq" using s2(5) by simp
      have st: "\<forall>zs. block_at s1 (sao_a oq) \<noteq> Inr zs" using s2(8) by (simp add: b1)
      from s1(5) os obtain os' where os': "obj_at s1 (Ptr qs) = Inr os'"
        "sao_n os' = sao_n os" "sao_a os' = sao_a os" by blast
      have src1: "handle_at s1 src = Inr (Ptr qs)" using src Ptr by simp
      have sz: "SharedArray_size x ?s3 = SharedArray_size src s1"
        by (simp add: size_ptr [OF x3 oq3] size_ptr [OF src1 os'(1)] s2(7) os'(2))
      have el: "elements x ?s3 = elements src s1"
      proof (cases "0 < sao_n os")
        case False
        then show ?thesis
          by (simp add: elements_ptr [OF x3 oq3] elements_ptr [OF src1 os'(1)] s2(7) os'(2))
      next
        case True
        with s2(9) obtain xs where xs: "block_at s (sao_a os) = Inr xs"
          "nat (sao_n os) \<le> length xs" "block_at s2 (sao_a oq) = Inr (take (nat (sao_n os)) xs)"
          by auto
        then show ?thesis
          using True
          by (simp add: elements_ptr [OF x3 oq3] elements_ptr [OF src1 os'(1)] s2(7) os' b1)
      qed
      show ?thesis
        using run' oth x3 fresh oq3 s2(6) st sz el Ptr by auto
    qed
  qed
  show ?thesis
    using s1(1) main by blast
qed

theorem diverge_keeps_other_witness:
  "heap_wf two_elements \<and> handle_at two_elements 0 = Inr (Ptr 0) \<and>
   SharedArray_copy 0 two_elements = Inr (1, shared_pair) \<and>
   handle_at shared_pair 0 = Inr (Ptr 0) \<and> Ptr 0 \<noteq> Null \<and>
   (\<exists>s2. SharedArray_update 1 False 0 shared_pair = Inr s2 \<and>
      handle_at s2 0 = Inr (Ptr 0) \<and>
      SharedArray_size 0 s2 = Inr 2 \<and> elements 0 s2 = Inr [Some 7, Some 8] \<and>
      (\<exists>q oq. handle_at s2 1 = Inr (Ptr q) \<and> obj_at s2 (Ptr q) = Inr oq \<and> sao_use oq = 1 \<and>
         SharedArray_size 1 s2 = Inr 2 \<and> elements 1 s2 = Inr [Some 7, Some 8]))"
proof -
  have w: "heap_wf two_elements" by (simp add: two_elements_def wf_defs)
  have a: "handle_at two_elements 0 = Inr (Ptr 0)"
    and sz: "SharedArray_size 0 two_elements = Inr 2"
    and el: "elements 0 two_elements = Inr [Some 7, Some 8]"
    by (simp_all add: two_elements_def run_defs)
  have cp: "SharedArray_copy 0 two_elements = Inr (1, shared_pair)"
    by (simp add: two_elements_def shared_pair_def run_defs)
  have src: "handle_at shared_pair 0 = Inr (Ptr 0)"
    and sz1: "SharedArray_size 0 shared_pair = Inr 2"
    and el1: "elements 0 shared_pair = Inr [Some 7, Some 8]"
    by (simp_all add: shared_pair_def run_defs)
  have ne: "Ptr 0 \<noteq> Null" by simp
  from diverge_keeps_other [OF w a] obtain b s1 where
    bs: "SharedArray_copy 0 two_elements = Inr (b, s1)" and
    every: "\<forall>x y src ps.
              ((x = 0 \<and> y = b) \<or> (x = b \<and> y = 0)) \<and> handle_at s1 src = Inr ps \<longrightarrow>
              (\<exists>s2. SharedArray_update x False src s1 = Inr s2 \<and>
                 handle_at s2 y = Inr (Ptr 0) \<and>
                 SharedArray_size y s2 = SharedArray_size 0 two_elements \<and>
                 elements y s2 = elements 0 two_elements \<and>
                 (ps = Null \<longrightarrow> handle_at s2 x = Inr Null) \<and>
                 (ps \<noteq> Null \<longrightarrow>
                    (\<exists>q oq. handle_at s2 x = Inr (Ptr q) \<and>
                       obj_at s1 (Ptr q) = Inl DanglingPointer \<and>
                       obj_at s2 (Ptr q) = Inr oq \<and> sao_use oq = 1 \<and>
                       (\<forall>zs. block_at s1 (sao_a oq) \<noteq> Inr zs) \<and>
                       SharedArray_size x s2 = SharedArray_size src s1 \<and>
                       elements x s2 = elements src s1)))"
    by (elim exE conjE)
  from bs cp have eq: "b = 1" "s1 = shared_pair" by simp_all
  note inst = every [THEN spec [where x = "1::nat"], THEN spec [where x = "0::nat"],
      THEN spec [where x = "0::nat"], THEN spec [where x = "Ptr 0"]]
  from inst src have "\<exists>s2. SharedArray_update 1 False 0 shared_pair = Inr s2 \<and>
                 handle_at s2 0 = Inr (Ptr 0) \<and>
                 SharedArray_size 0 s2 = SharedArray_size 0 two_elements \<and>
                 elements 0 s2 = elements 0 two_elements \<and>
                    (\<exists>q oq. handle_at s2 1 = Inr (Ptr q) \<and>
                       obj_at shared_pair (Ptr q) = Inl DanglingPointer \<and>
                       obj_at s2 (Ptr q) = Inr oq \<and> sao_use oq = 1 \<and>
                       (\<forall>zs. block_at shared_pair (sao_a oq) \<noteq> Inr zs) \<and>
                       SharedArray_size 1 s2 = SharedArray_size 0 shared_pair \<and>
                       elements 1 s2 = elements 0 shared_pair)"
    unfolding eq by simp
  then have "\<exists>s2. SharedArray_update 1 False 0 shared_pair = Inr s2 \<and>
                 handle_at s2 0 = Inr (Ptr 0) \<and>
                 SharedArray_size 0 s2 = Inr 2 \<and>
                 elements 0 s2 = Inr [Some 7, Some 8] \<and>
                    (\<exists>q oq. handle_at s2 1 = Inr (Ptr q) \<and>
                       obj_at s2 (Ptr q) = Inr oq \<and> sao_use oq = 1 \<and>
                       SharedArray_size 1 s2 = Inr 2 \<and>
                       elements 1 s2 = Inr [Some 7, Some 8])"
    unfolding sz el sz1 el1 by blast
  with w a cp src ne show ?thesis by (intro conjI)
qed

text \<open>
  The claim as stated fails when the handles are empty: the copy of an empty handle,
  updated from the empty handle without sharing, holds no buffer afterwards.
\<close>

theorem diverge_keeps_other_counterexample:
  "heap_wf with_empty \<and> handle_at with_empty 1 = Inr Null \<and>
   SharedArray_copy 1 with_empty = Inr (2, copied_empty) \<and>
   SharedArray_update 2 False 1 copied_empty = Inr copied_empty \<and>
   handle_at copied_empty 2 = Inr Null"
  by (simp add: with_empty_def copied_empty_def wf_defs) (simp add: run_defs)

text \<open>
  C6, amended. In a well-formed heap, \<open>h.size(0)\<close> returns normally and leaves
  \<open>h\<close> empty, so that \<open>h.size()\<close> is 0; the other handles are as before; an empty
  \<open>h\<close> leaves the heap as it was, and otherwise the stake of \<open>h\<close> is released: the
  buffer is deleted if its count was 1, and has its count lowered by one if not. For
  \<open>k \<noteq> 0\<close> and a handle that holds a buffer, \<open>h.size(k)\<close> stores \<open>k\<close> in the field
  \<open>n\<close> of the buffer and changes nothing else: not the pointer \<open>a\<close>, not the count, no
  storage, no event in the trace.
\<close>

theorem resize_effect:
  assumes wf: "heap_wf s" and h: "handle_at s h = Inr ph"
  shows "(\<exists>s'. SharedArray_resize h 0 s = Inr s' \<and> handle_at s' h = Inr Null \<and>
            SharedArray_size h s' = Inr 0 \<and>
            (\<forall>g. g \<noteq> h \<longrightarrow> handle_at s' g = handle_at s g) \<and>
            (ph = Null \<longrightarrow> s' = s) \<and>
            (\<forall>q ob. ph = Ptr q \<and> obj_at s (Ptr q) = Inr ob \<longrightarrow>
               obj_at s' (Ptr q) =
                 (if sao_use ob = 1 then Inl DanglingPointer
                  else Inr (ob\<lparr>sao_use := sao_use ob - 1\<rparr>)))) \<and>
         (k \<noteq> 0 \<and> ph = Ptr q \<and> obj_at s (Ptr q) = Inr ob \<longrightarrow>
            SharedArray_resize h k s = Inr (s\<lparr>objs := (objs s)[q := Some (ob\<lparr>sao_n := k\<rparr>)]\<rparr>))"
proof (intro conjI impI)
  assume "k \<noteq> 0 \<and> ph = Ptr q \<and> obj_at s (Ptr q) = Inr ob"
  with h show "SharedArray_resize h k s = Inr (s\<lparr>objs := (objs s)[q := Some (ob\<lparr>sao_n := k\<rparr>)]\<rparr>)"
    by (simp add: SharedArray_resize_def put_obj_def)
next
  from h have hl: "h < length (handles s)" by (simp add: handle_at_Inr)
  show "\<exists>s'. SharedArray_resize h 0 s = Inr s' \<and> handle_at s' h = Inr Null \<and>
            SharedArray_size h s' = Inr 0 \<and>
            (\<forall>g. g \<noteq> h \<longrightarrow> handle_at s' g = handle_at s g) \<and>
            (ph = Null \<longrightarrow> s' = s) \<and>
            (\<forall>q ob. ph = Ptr q \<and> obj_at s (Ptr q) = Inr ob \<longrightarrow>
               obj_at s' (Ptr q) =
                 (if sao_use ob = 1 then Inl DanglingPointer
                  else Inr (ob\<lparr>sao_use := sao_use ob - 1\<rparr>)))"
  proof (cases ph)
    case Null
    with h hl show ?thesis
      by (simp add: SharedArray_resize_def put_handle_same SharedArray_size_def)
  next
    case (Ptr p)
    with wf h obtain ob where ob: "obj_at s (Ptr p) = Inr ob"
      using wf_handle by blast
    from SAO_release_frame [OF ob wf_obj(3) [OF wf ob]] obtain s1 where s1:
      "SAO_release (Ptr p) s = Inr s1" "handles s1 = handles s"
      "obj_at s1 (Ptr p) =
         (if sao_use ob = 1 then Inl DanglingPointer else Inr (ob\<lparr>sao_use := sao_use ob - 1\<rparr>))"
      by blast
    have hl1: "h < length (handles s1)" using hl s1(2) by simp
    have "SharedArray_resize h 0 s = Inr (put_handle h Null s1)"
      using h Ptr s1(1) by (simp add: SharedArray_resize_def)
    moreover have "handle_at (put_handle h Null s1) g = (if g = h then Inr Null else handle_at s g)" for g
      using handle_at_put_handle [OF hl1] handles_cong [OF s1(2)] by simp
    ultimately show ?thesis
      using Ptr ob s1(3) by (simp add: SharedArray_size_def)
  qed
qed

theorem resize_effect_witness:
  "heap_wf with_empty \<and> handle_at with_empty 0 = Inr (Ptr 0) \<and>
   obj_at with_empty (Ptr 0) = Inr \<lparr>sao_use = 1, sao_a = Ptr 0, sao_n = 2\<rparr> \<and>
   (1::int) \<noteq> 0 \<and>
   (\<exists>s'. SharedArray_resize 0 0 with_empty = Inr s' \<and> handle_at s' 0 = Inr Null \<and>
      SharedArray_size 0 s' = Inr 0 \<and> obj_at s' (Ptr 0) = Inl DanglingPointer) \<and>
   SharedArray_resize 0 1 with_empty =
     Inr (with_empty\<lparr>objs := [Some \<lparr>sao_use = 1, sao_a = Ptr 0, sao_n = 1\<rparr>]\<rparr>)"
proof -
  let ?ob = "\<lparr>sao_use = 1, sao_a = Ptr 0, sao_n = 2\<rparr>"
  have w: "heap_wf with_empty" by (simp add: with_empty_def wf_defs)
  have h: "handle_at with_empty 0 = Inr (Ptr 0)" and ob: "obj_at with_empty (Ptr 0) = Inr ?ob"
    by (simp_all add: with_empty_def run_defs)
  have k: "(1::int) \<noteq> 0" by simp
  from resize_effect [OF w h, of 1 0 ?ob] ob
  have r1: "\<exists>s'. SharedArray_resize 0 0 with_empty = Inr s' \<and> handle_at s' 0 = Inr Null \<and>
      SharedArray_size 0 s' = Inr 0 \<and> obj_at s' (Ptr 0) = Inl DanglingPointer"
    by auto
  from resize_effect [OF w h, of 1 0 ?ob] ob k
  have "SharedArray_resize 0 1 with_empty =
     Inr (with_empty\<lparr>objs := (objs with_empty)[0 := Some (?ob\<lparr>sao_n := 1\<rparr>)]\<rparr>)"
    by blast
  then have r2: "SharedArray_resize 0 1 with_empty =
     Inr (with_empty\<lparr>objs := [Some \<lparr>sao_use = 1, sao_a = Ptr 0, sao_n = 1\<rparr>]\<rparr>)"
    by (simp add: with_empty_def)
  from w h ob k r1 r2 show ?thesis by blast
qed

text \<open>
  The claim as stated fails for an empty handle and \<open>n \<noteq> 0\<close>: \<open>sao->n = n\<close>
  dereferences the null pointer.
\<close>

theorem resize_effect_counterexample:
  "heap_wf with_empty \<and> handle_at with_empty 1 = Inr Null \<and>
   SharedArray_resize 1 5 with_empty = Inl NullDereference"
  by (simp add: with_empty_def wf_defs) (simp add: run_defs)

section \<open>Properties of the registry and the deserializer\<close>

text \<open>
  C8. If the registry holds a factory for the type identifier of the specification,
  \<open>createVar\<close> returns what one call of that factory on the space and the specification
  returns; if it holds none, \<open>createVar\<close> fails with UnknownVariableType. The factory
  held for an identifier is the one registered last for it, and registrations for other
  identifiers and of posters do not change it.
\<close>

theorem createVar_dispatch:
  "(varCreators r (vs_vti spec) = Some vc \<longrightarrow> createVar r sp spec = Inr (vc sp spec)) \<and>
   (varCreators r (vs_vti spec) = None \<longrightarrow> createVar r sp spec = Inl UnknownVariableType) \<and>
   (vs_vti spec = t \<longrightarrow> createVar (add_varCreator t vc r) sp spec = Inr (vc sp spec)) \<and>
   (vs_vti spec \<noteq> t \<longrightarrow>
      createVar (add_varCreator t vc r) sp spec = createVar r sp spec) \<and>
   createVar (add_poster name p r) sp spec = createVar r sp spec"
  by (simp add: createVar_def add_varCreator_def add_poster_def)

theorem createVar_dispatch_witness:
  "varCreators example_registry (vs_vti (var_spec 1)) = Some bounded_var \<and>
   createVar example_registry (0, []) (var_spec 1) = Inr (0, (1, [])) \<and>
   varCreators example_registry (vs_vti (var_spec 2)) = None \<and>
   createVar example_registry (0, []) (var_spec 2) = Inl UnknownVariableType"
proof -
  have 1: "varCreators example_registry (vs_vti (var_spec 1)) = Some bounded_var"
    by (simp add: example_registry_def add_poster_def add_varCreator_def var_spec_def)
  have 2: "varCreators example_registry (vs_vti (var_spec 2)) = None"
    by (simp add: example_registry_def add_poster_def add_varCreator_def var_spec_def)
  have 3: "bounded_var (0, []) (var_spec 1) = (0, (1, []))"
    by (simp add: bounded_var_def)
  from createVar_dispatch [of example_registry "var_spec 1" bounded_var "(0, [])"]
    createVar_dispatch [of example_registry "var_spec 2" bounded_var "(0, [])"] 1 2 3
  show ?thesis by simp
qed

text \<open>
  C9, amended. \<open>Deserializer::post\<close> never changes the sequence of created variables nor
  the map of identifiers. If the registry has no poster for the kind of the specification,
  it fails with UnknownConstraintKind, whatever the argument indices are. If it has one and
  some argument index is not a position in the sequence of created variables, it fails
  with UndefinedVariableReference. After either failure the deserializer, with its space,
  is as before.
\<close>

theorem post_checks_indices:
  "ds_v (snd (Deserializer_post r d spec)) = ds_v d \<and>
   ds_m (snd (Deserializer_post r d spec)) = ds_m d \<and>
   (posters r (as_name spec) = None \<longrightarrow>
      Deserializer_post r d spec = (Some UnknownConstraintKind, d)) \<and>
   (posters r (as_name spec) = Some p \<and>
    (\<exists>i\<in>set (as_args spec). \<not> valid_index (ds_v d) i) \<longrightarrow>
      Deserializer_post r d spec = (Some UndefinedVariableReference, d)) \<and>
   (posters r (as_name spec) = Some p \<and>
    (\<forall>i\<in>set (as_args spec). valid_index (ds_v d) i) \<longrightarrow>
      Deserializer_post r d spec = (None, d\<lparr>ds_home := p (ds_home d) (ds_v d) spec\<rparr>))"
  by (auto simp: Deserializer_post_def post_def invoke_poster_def list_all_iff
      split: sum.splits option.splits)

theorem post_checks_indices_witness:
  "ds_v two_declared = [0, 1] \<and>
   posters example_registry (as_name (eq_spec [0, 2])) = Some eq_poster \<and>
   (\<exists>i\<in>set (as_args (eq_spec [0, 2])). \<not> valid_index (ds_v two_declared) i) \<and>
   Deserializer_post example_registry two_declared (eq_spec [0, 2]) =
     (Some UndefinedVariableReference, two_declared) \<and>
   posters example_registry (as_name (neq_spec [0, 1])) = None \<and>
   Deserializer_post example_registry two_declared (neq_spec [0, 1]) =
     (Some UnknownConstraintKind, two_declared) \<and>
   valid_index (ds_v two_declared) 0 \<and> valid_index (ds_v two_declared) 1 \<and>
   ds_home (snd (Deserializer_post example_registry two_declared (eq_spec [0, 1]))) =
     (2, [[0, 1]])"
proof -
  have v: "ds_v two_declared = [0, 1]" and h: "ds_home two_declared = (2, [])"
    by (simp_all add: two_declared_def Deserializer_var_def createVar_def example_registry_def
        add_poster_def add_varCreator_def var_spec_def bounded_var_def)
  have eq: "posters example_registry (as_name (eq_spec args)) = Some eq_poster" for args
    by (simp add: example_registry_def add_poster_def add_varCreator_def eq_spec_def)
  have neq: "posters example_registry (as_name (neq_spec [0, 1])) = None"
    by (simp add: example_registry_def add_poster_def add_varCreator_def neq_spec_def)
  have bad: "\<exists>i\<in>set (as_args (eq_spec [0, 2])). \<not> valid_index (ds_v two_declared) i"
    by (simp add: v eq_spec_def valid_index_def)
  have ok: "valid_index (ds_v two_declared) 0" "valid_index (ds_v two_declared) 1"
    by (simp_all add: v valid_index_def)
  then have good: "\<forall>i\<in>set (as_args (eq_spec [0, 1])). valid_index (ds_v two_declared) i"
    by (simp add: eq_spec_def)
  from post_checks_indices [of example_registry two_declared "eq_spec [0, 2]" eq_poster] eq bad
  have r1: "Deserializer_post example_registry two_declared (eq_spec [0, 2]) =
     (Some UndefinedVariableReference, two_declared)" by blast
  from post_checks_indices [of example_registry two_declared "neq_spec [0, 1]" eq_poster] neq
  have r2: "Deserializer_post example_registry two_declared (neq_spec [0, 1]) =
     (Some UnknownConstraintKind, two_declared)" by blast
  from post_checks_indices [of example_registry two_declared "eq_spec [0, 1]" eq_poster] eq good
  have "Deserializer_post example_registry two_declared (eq_spec [0, 1]) =
     (None, two_declared\<lparr>ds_home :=
        eq_poster (ds_home two_declared) (ds_v two_declared) (eq_spec [0, 1])\<rparr>)" by blast
  then have r3: "ds_home (snd (Deserializer_post example_registry two_declared (eq_spec [0, 1]))) =
     (2, [[0, 1]])"
    by (simp add: v h eq_poster_def eq_spec_def)
  from v eq [of "[0, 2]"] bad r1 neq r2 ok r3 show ?thesis by blast
qed

text \<open>
  The claim as stated fails for a specification of an unregistered kind with an index out
  of range: the lookup comes first, and the failure is UnknownConstraintKind.
\<close>

theorem post_unregistered_counterexample:
  "ds_v two_declared = [0, 1] \<and>
   (\<exists>i\<in>set (as_args (neq_spec [0, 2])). \<not> valid_index (ds_v two_declared) i) \<and>
   Deserializer_post example_registry two_declared (neq_spec [0, 2]) =
     (Some UnknownConstraintKind, two_declared)"
proof -
  have v: "ds_v two_declared = [0, 1]"
    by (simp add: two_declared_def Deserializer_var_def createVar_def example_registry_def
        add_poster_def add_varCreator_def var_spec_def bounded_var_def)
  have bad: "\<exists>i\<in>set (as_args (neq_spec [0, 2])). \<not> valid_index (ds_v two_declared) i"
    by (simp add: v neq_spec_def valid_index_def)
  have "Deserializer_post example_registry two_declared (neq_spec [0, 2]) =
     (Some UnknownConstraintKind, two_declared)"
    by (simp add: Deserializer_post_def post_def example_registry_def add_poster_def
        add_varCreator_def neq_spec_def)
  with v bad show ?thesis by simp
qed

end
